theory Spec2Isabelle
  imports Main "HOL-Library.Multiset"
begin

section \<open>Strings and JavaScript truthiness\<close>

text \<open>
  A JavaScript string is a sequence of UTF-16 code units; \<open>slice\<close>, \<open>length\<close>, \<open>+\<close>,
  \<open>===\<close> and \<open>includes\<close> all work on code units. ASCII literals of the source are
  written through \<open>js\<close>, the Thai literals as their code units.
\<close>

type_synonym jstring = "nat list"

definition js :: "string \<Rightarrow> jstring" where
  "js s = map of_char s"

text \<open>\<open>!s\<close> is true for the empty string; \<open>!x\<close> is true for \<open>undefined\<close>, \<open>null\<close> and \<open>''\<close>.\<close>

definition truthy :: "jstring \<Rightarrow> bool" where
  "truthy s = (s \<noteq> [])"

definition truthy_opt :: "jstring option \<Rightarrow> bool" where
  "truthy_opt x = (case x of None \<Rightarrow> False | Some s \<Rightarrow> truthy s)"

text \<open>\<open>a || b\<close> on values that are strings or absent.\<close>

definition js_or :: "jstring option \<Rightarrow> jstring option \<Rightarrow> jstring option" where
  "js_or a b = (if truthy_opt a then a else b)"

text \<open>\<open>x ?? ''\<close>\<close>

definition or_empty :: "jstring option \<Rightarrow> jstring" where
  "or_empty x = (case x of None \<Rightarrow> [] | Some s \<Rightarrow> s)"

text \<open>\<open>s.includes(t)\<close>: some position of \<open>s\<close> starts with \<open>t\<close>.\<close>

fun js_includes :: "jstring \<Rightarrow> jstring \<Rightarrow> bool" where
  "js_includes [] t = (t = [])"
| "js_includes (c # cs) t = (take (length t) (c # cs) = t \<or> js_includes cs t)"

text \<open>\<open>xs.join(sep)\<close>\<close>

fun join :: "jstring \<Rightarrow> jstring list \<Rightarrow> jstring" where
  "join sep [] = []"
| "join sep [x] = x"
| "join sep (x # y # ys) = x @ sep @ join sep (y # ys)"

text \<open>The decimal digits of a number inside a template string.\<close>

fun decimal :: "nat \<Rightarrow> jstring" where
  "decimal n = (if n < 10 then [48 + n] else decimal (n div 10) @ [48 + n mod 10])"

declare decimal.simps [simp del]

section \<open>The relational store\<close>

text \<open>
  Column \<open>message\<close> of \<open>chat_messages\<close> is a JSON object; the handlers read its fields
  \<open>type\<close>, \<open>content\<close>, \<open>text\<close> and \<open>message\<close>, each of which may be missing.
\<close>

record payload =
  p_type :: "jstring option"
  p_content :: "jstring option"
  p_text :: "jstring option"
  p_message :: "jstring option"

record message_row =
  session_id :: jstring
  message :: payload
  created_at :: nat

record session_row =
  sess_id :: jstring
  title :: jstring
  user_id :: jstring
  summary :: "jstring option"

record world =
  chat_sessions :: "session_row list"
  chat_messages :: "message_row list"

section \<open>Messages, model calls and the console\<close>

datatype kind = Human | AI | System | Other

record base_message =
  kind :: kind
  content :: jstring

text \<open>The places where the handlers write to the console with \<open>error\<close> or \<open>warn\<close>.\<close>

datatype log_site =
    GetHistoryError
  | ErrorFetchingMessages
  | ApiError
  | StreamError
  | DatabaseSaveError
  | ErrorInCreateNewSession
  | FailedToUpdateSummary
  | OverflowSummaryFailed
  | SearchErrorWarn
  | SaveUserMsgFailed
  | EmptyResponse
  | UpdateSummaryFailed
  | FailedToSaveHistory

text \<open>
  The calls to the language model, with the values that fill the slots of the prompt
  template of each call site: \<open>ChatChain summary input recent_window\<close>,
  \<open>SummarizeAll history\<close>, \<open>SummarizeOverflow history\<close>,
  \<open>RagChain input chat_history summary context\<close>, \<open>SummarizeDelta old delta\<close>,
  \<open>AgentEvents messages\<close>.
\<close>

datatype model_call =
    ChatChain jstring jstring "base_message list"
  | SummarizeAll jstring
  | SummarizeOverflow jstring
  | RagChain jstring "base_message list" jstring jstring
  | SummarizeDelta jstring jstring
  | AgentEvents "base_message list"

text \<open>What a request leaves behind besides the store: console lines and model calls, in order.\<close>

datatype event = Log log_site jstring | Call model_call

text \<open>
  The external calls of one request. Each may reject; \<open>fault env op = Some msg\<close> says
  that the call rejects with \<open>Error(msg)\<close>. The other fields are what the collaborators
  answer: the id the store gives a new session, the timestamp it gives an inserted row,
  the tokenizer, the vector search (\<open>Inl\<close> its error message, \<open>Inr\<close> the hits, each
  already rendered by the template of \<open>searchDocuments\<close>), the chunks of the model
  stream and the error that ends it, if any, and the texts the two summarizers return.
\<close>

datatype op =
    ConnectHistory | SelectHistory
  | ConnectSession | InsertSession
  | ConnectSummary | SelectSummary
  | GetMessages
  | OverflowSummarizer
  | StreamOpen
  | AddUserMessage | AddAIMessage | AddMessages
  | Summarizer
  | ConnectUpdate | UpdateSummary

record env =
  fault :: "op \<Rightarrow> jstring option"
  new_session_id :: jstring
  now :: "op \<Rightarrow> nat"
  encode :: "jstring \<Rightarrow> nat list"
  search_outcome :: "jstring + jstring list"
  stream_chunks :: "jstring list"
  stream_error :: "jstring option"
  summarizer_output :: jstring
  overflow_summarizer_output :: jstring
  date_now :: nat

section \<open>Requests and responses\<close>

record ui_part =
  part_type :: jstring
  part_text :: "jstring option"

record ui_message =
  ui_role :: jstring
  ui_content :: "jstring option"
  ui_parts :: "ui_part list option"

record request =
  messages :: "ui_message list"
  sessionId :: "jstring option"
  userId :: "jstring option"

record history_item =
  h_id :: jstring
  h_role :: jstring
  h_content :: jstring
  h_createdAt :: nat

datatype stream_end = Closed | Errored jstring

text \<open>
  \<open>TextResponse status body\<close>, \<open>ErrorResponse status error details\<close>,
  \<open>MessagesResponse status messages\<close>, and the streamed response with its
  \<open>x-session-id\<close> header, the chunks enqueued and how the stream ended.
\<close>

datatype response =
    TextResponse nat jstring
  | ErrorResponse nat jstring "jstring option"
  | MessagesResponse nat "history_item list"
  | StreamResponse "jstring option" "jstring list" stream_end

type_synonym outcome = "response \<times> world \<times> event list"

section \<open>The Thai literals of the source\<close>

definition search_unavailable_now :: jstring where
  "search_unavailable_now =
     [3652, 3617, 3656, 3626, 3634, 3617, 3634, 3619, 3606, 3648, 3586, 3657, 3634, 3606, 3638, 3591,
      3619, 3632, 3610, 3610, 3588, 3657, 3609, 3627, 3634, 3648, 3629, 3585, 3626, 3634, 3619, 3652,
      3604, 3657, 3651, 3609, 3586, 3603, 3632, 3609, 3637, 3657]"

definition search_unavailable :: jstring where
  "search_unavailable =
     [3652, 3617, 3656, 3626, 3634, 3617, 3634, 3619, 3606, 3648, 3586, 3657, 3634, 3606, 3638, 3591,
      3619, 3632, 3610, 3610, 3588, 3657, 3609, 3627, 3634, 3648, 3629, 3585, 3626, 3634, 3619, 3652,
      3604, 3657]"

definition friendlyMessage :: jstring where
  "friendlyMessage =
     [3586, 3629, 3629, 3616, 3633, 3618, 3588, 3619, 3633, 3610, 32, 3586, 3603, 3632, 3609, 3637,
      3657, 3652, 3617, 3656, 3626, 3634, 3617, 3634, 3619, 3606, 3648, 3586, 3657, 3634, 3606, 3638,
      3591, 3619, 3632, 3610, 3610, 3588, 3657, 3609, 3627, 3634, 3648, 3629, 3585, 3626, 3634, 3619,
      3652, 3604, 3657, 32, 3585, 3619, 3640, 3603, 3634, 3621, 3629, 3591, 3651, 3627, 3617, 3656,
      3629, 3637, 3585, 3588, 3619, 3633, 3657, 3591, 3651, 3609, 3616, 3634, 3618, 3627, 3621, 3633,
      3591]"

definition no_previous_history :: jstring where
  "no_previous_history =
     [3652, 3617, 3656, 3617, 3637, 3611, 3619, 3632, 3623, 3633, 3605, 3636, 3585, 3656, 3629, 3609,
      3627, 3609, 3657, 3634]"

definition no_previous_context :: jstring where
  "no_previous_context =
     [3652, 3617, 3656, 3617, 3637, 3610, 3619, 3636, 3610, 3607, 3585, 3656, 3629, 3609, 3627, 3609,
      3657, 3634]"

definition user_label :: jstring where
  "user_label = [3612, 3641, 3657, 3651, 3594, 3657, 58, 32]"

definition assistant_label :: jstring where
  "assistant_label = [3612, 3641, 3657, 3594, 3656, 3623, 3618, 58, 32]"

definition system_label :: jstring where
  "system_label = [3619, 3632, 3610, 3610, 58, 32]"

definition not_found_prefix :: jstring where
  "not_found_prefix =
     [3652, 3617, 3656, 3614, 3610, 3648, 3629, 3585, 3626, 3634, 3619, 3607, 3637, 3656, 3648, 3585,
      3637, 3656, 3618, 3623, 3586, 3657, 3629, 3591, 3585, 3633, 3610, 32, 34]"

definition not_found_suffix :: jstring where
  "not_found_suffix = [34, 32, 3651, 3609, 3619, 3632, 3610, 3610]"

definition search_failed_prefix :: jstring where
  "search_failed_prefix =
     [3648, 3585, 3636, 3604, 3586, 3657, 3629, 3612, 3636, 3604, 3614, 3621, 3634, 3604, 3651, 3609,
      3585, 3634, 3619, 3588, 3657, 3609, 3627, 3634, 3648, 3629, 3585, 3626, 3634, 3619, 58, 32]"

section \<open>GET: reading the history of a session\<close>

text \<open>
  \<open>SELECT message, message->>'type' as message_type, created_at FROM chat_messages
  WHERE session_id = $1 ORDER BY created_at ASC\<close>. The order of rows with equal
  \<open>created_at\<close> is left open by SQL; the model keeps them in insertion order.
\<close>

definition select_history :: "world \<Rightarrow> jstring \<Rightarrow> message_row list" where
  "select_history w sid =
     sort_key created_at (filter (\<lambda>r. session_id r = sid) (chat_messages w))"

definition role_of :: "jstring option \<Rightarrow> jstring" where
  "role_of message_type =
     (if message_type = Some (js ''ai'') then js ''assistant''
      else if message_type = Some (js ''human'') then js ''user''
      else js ''user'')"

definition to_history_item :: "nat \<times> message_row \<Rightarrow> history_item" where
  "to_history_item ir =
     (let i = fst ir; row = snd ir; data = message row in
      \<lparr> h_id = js ''history-'' @ decimal i,
        h_role = role_of (p_type data),
        h_content = or_empty (js_or (js_or (js_or (p_content data) (p_text data)) (p_message data)) (Some [])),
        h_createdAt = created_at row \<rparr>)"

definition rows_to_items :: "message_row list \<Rightarrow> history_item list" where
  "rows_to_items rows = map to_history_item (enumerate 0 rows)"

text \<open>The handler of the chat route; its \<open>catch\<close> answers 500 without details.\<close>

definition GET_chat :: "env \<Rightarrow> world \<Rightarrow> jstring option \<Rightarrow> response \<times> event list" where
  "GET_chat env w sessionIdParam =
     (if \<not> truthy_opt sessionIdParam then
        (ErrorResponse 400 (js ''Session ID is required'') None, [])
      else case fault env ConnectHistory of
        Some e \<Rightarrow> (ErrorResponse 500 (js ''Failed to fetch history'') None, [Log GetHistoryError e])
      | None \<Rightarrow>
         (case fault env SelectHistory of
            Some e \<Rightarrow> (ErrorResponse 500 (js ''Failed to fetch history'') None, [Log GetHistoryError e])
          | None \<Rightarrow> (MessagesResponse 200 (rows_to_items (select_history w (or_empty sessionIdParam))), [])))"

text \<open>The handler of the RAG route; its \<open>catch\<close> answers 500 with the error's message.\<close>

definition GET_rag :: "env \<Rightarrow> world \<Rightarrow> jstring option \<Rightarrow> response \<times> event list" where
  "GET_rag env w sessionIdParam =
     (if \<not> truthy_opt sessionIdParam then
        (ErrorResponse 400 (js ''Session ID is required'') None, [])
      else case fault env ConnectHistory of
        Some e \<Rightarrow> (ErrorResponse 500 (js ''Failed to fetch messages'') (Some e), [Log ErrorFetchingMessages e])
      | None \<Rightarrow>
         (case fault env SelectHistory of
            Some e \<Rightarrow> (ErrorResponse 500 (js ''Failed to fetch messages'') (Some e), [Log ErrorFetchingMessages e])
          | None \<Rightarrow> (MessagesResponse 200 (rows_to_items (select_history w (or_empty sessionIdParam))), [])))"

section \<open>The history store adapter\<close>

text \<open>
  Modelled from the spec: the class \<open>PostgresChatMessageHistory\<close> of the orchestration
  library, which the handlers construct and call, is not part of the repository. The
  spec's history store has \<open>append\<close>, which durably stores one turn, and \<open>loadAll\<close>,
  which returns the turns of the session ascending by \<open>createdAt\<close> (ties in insertion
  order) and the empty sequence for an unknown session; a turn appended and read back
  has the same role and content.
\<close>

definition stored_kind :: "jstring option \<Rightarrow> kind" where
  "stored_kind t =
     (if t = Some (js ''human'') then Human
      else if t = Some (js ''ai'') then AI
      else if t = Some (js ''system'') then System
      else Other)"

definition kind_type :: "kind \<Rightarrow> jstring" where
  "kind_type k = (case k of Human \<Rightarrow> js ''human'' | AI \<Rightarrow> js ''ai''
                  | System \<Rightarrow> js ''system'' | Other \<Rightarrow> js ''generic'')"

definition stored_to_message :: "message_row \<Rightarrow> base_message" where
  "stored_to_message r =
     \<lparr> kind = stored_kind (p_type (message r)), content = or_empty (p_content (message r)) \<rparr>"

definition message_to_stored :: "jstring \<Rightarrow> nat \<Rightarrow> base_message \<Rightarrow> message_row" where
  "message_to_stored sid t m =
     \<lparr> session_id = sid,
       message = \<lparr> p_type = Some (kind_type (kind m)), p_content = Some (content m),
                   p_text = None, p_message = None \<rparr>,
       created_at = t \<rparr>"

definition getMessages :: "world \<Rightarrow> jstring \<Rightarrow> base_message list" where
  "getMessages w sid = map stored_to_message (select_history w sid)"

definition addMessage :: "jstring \<Rightarrow> nat \<Rightarrow> base_message \<Rightarrow> world \<Rightarrow> world" where
  "addMessage sid t m w = w\<lparr>chat_messages := chat_messages w @ [message_to_stored sid t m]\<rparr>"

definition addMessages :: "jstring \<Rightarrow> nat \<Rightarrow> base_message list \<Rightarrow> world \<Rightarrow> world" where
  "addMessages sid t ms w = fold (addMessage sid t) ms w"

definition HumanMessage :: "jstring \<Rightarrow> base_message" where
  "HumanMessage c = \<lparr> kind = Human, content = c \<rparr>"

definition AIMessage :: "jstring \<Rightarrow> base_message" where
  "AIMessage c = \<lparr> kind = AI, content = c \<rparr>"

section \<open>The sessions relation\<close>

text \<open>\<open>INSERT INTO chat_sessions (title, user_id) VALUES ($1, $2) RETURNING id\<close>\<close>

definition insert_session :: "env \<Rightarrow> jstring \<Rightarrow> jstring \<Rightarrow> world \<Rightarrow> world" where
  "insert_session env t u w =
     w\<lparr>chat_sessions := chat_sessions w @
          [\<lparr> sess_id = new_session_id env, title = t, user_id = u, summary = None \<rparr>]\<rparr>"

text \<open>\<open>SELECT summary FROM chat_sessions WHERE id = $1 LIMIT 1\<close>, then \<open>rows?.[0]?.summary ?? ''\<close>\<close>

definition select_summary :: "world \<Rightarrow> jstring \<Rightarrow> jstring" where
  "select_summary w sid =
     (case List.find (\<lambda>s. sess_id s = sid) (chat_sessions w) of
        None \<Rightarrow> []
      | Some s \<Rightarrow> or_empty (summary s))"

text \<open>\<open>UPDATE chat_sessions SET summary = $1 WHERE id = $2\<close>\<close>

definition update_summary :: "jstring \<Rightarrow> jstring \<Rightarrow> world \<Rightarrow> world" where
  "update_summary sid new w =
     w\<lparr>chat_sessions := map (\<lambda>s. if sess_id s = sid then s\<lparr>summary := Some new\<rparr> else s)
                             (chat_sessions w)\<rparr>"

section \<open>Token estimate and trimming\<close>

definition strTokenCounter :: "env \<Rightarrow> jstring \<Rightarrow> nat" where
  "strTokenCounter env c = length (encode env c)"

definition role_label :: "kind \<Rightarrow> jstring" where
  "role_label k = (case k of Human \<Rightarrow> js ''user'' | AI \<Rightarrow> js ''assistant''
                   | System \<Rightarrow> js ''system'' | Other \<Rightarrow> js ''unknown'')"

definition tiktokenCounter :: "env \<Rightarrow> base_message list \<Rightarrow> nat" where
  "tiktokenCounter env ms =
     fold (\<lambda>m n. n + strTokenCounter env (role_label (kind m))
                        + strTokenCounter env (content m)) ms 0"

text \<open>
  Modelled from the spec: \<open>trimMessages\<close> of the orchestration library, called with
  strategy \<open>last\<close>, is not part of the repository. The spec's trimmer scans the history
  from the most recent turn backward, accumulating the token estimate; a turn enters the
  window only if the running total, that turn included, stays within the budget; once
  the budget is exceeded, that turn and everything older is left out.
\<close>

fun scan_back :: "('a list \<Rightarrow> nat) \<Rightarrow> nat \<Rightarrow> nat \<Rightarrow> 'a list \<Rightarrow> 'a list \<Rightarrow> 'a list" where
  "scan_back counter budget running [] window = window"
| "scan_back counter budget running (m # older) window =
     (if running + counter [m] \<le> budget
      then scan_back counter budget (running + counter [m]) older (m # window)
      else window)"

definition trimMessages :: "('a list \<Rightarrow> nat) \<Rightarrow> nat \<Rightarrow> 'a list \<Rightarrow> 'a list" where
  "trimMessages counter maxTokens history = scan_back counter maxTokens 0 (rev history) []"

text \<open>
  The history loaded for a request is a list of objects. \<open>new Set(trimmedWindow)\<close> and
  \<open>windowSet.has(m)\<close> compare objects by identity, so an object is a reference paired
  with its value; the loaded history has the references 0, 1, and so on. The library
  does not hand back the messages it was given: it builds a new message for each turn
  it keeps. The objects of a window therefore carry references that no object of the
  history has, and the values of the turns they were built from.
\<close>

type_synonym obj = "nat \<times> base_message"

definition objCounter :: "env \<Rightarrow> obj list \<Rightarrow> nat" where
  "objCounter env ms = tiktokenCounter env (map snd ms)"

definition fresh_ref :: "obj list \<Rightarrow> nat" where
  "fresh_ref objs = Suc (fold max (map fst objs) 0)"

definition copy_of :: "nat \<Rightarrow> obj \<Rightarrow> obj" where
  "copy_of base m = (base + fst m, snd m)"

definition trimMessagesObjects :: "(obj list \<Rightarrow> nat) \<Rightarrow> nat \<Rightarrow> obj list \<Rightarrow> obj list" where
  "trimMessagesObjects counter maxTokens history =
     map (copy_of (fresh_ref history)) (trimMessages counter maxTokens history)"

text \<open>Step 7 of the RAG route: the window and the overflow, for a budget.\<close>

definition trim :: "env \<Rightarrow> nat \<Rightarrow> obj list \<Rightarrow> obj list \<times> obj list" where
  "trim env budget fullHistory =
     (let trimmedWindow = trimMessagesObjects (objCounter env) budget fullHistory;
          overflow = filter (\<lambda>m. m \<notin> set trimmedWindow) fullHistory
      in (trimmedWindow, overflow))"

definition formatMessageForSummary :: "base_message \<Rightarrow> jstring" where
  "formatMessageForSummary m =
     (if kind m = Human then user_label @ content m
      else if kind m = AI then assistant_label @ content m
      else system_label @ content m)"

text \<open>The estimate of one turn: its role label and its content.\<close>

definition turn_cost :: "env \<Rightarrow> base_message \<Rightarrow> nat" where
  "turn_cost env m = strTokenCounter env (role_label (kind m)) + strTokenCounter env (content m)"

section \<open>POST of the chat route\<close>

definition find_text_part :: "ui_part list \<Rightarrow> ui_part option" where
  "find_text_part ps = List.find (\<lambda>p. part_type p = js ''text'') ps"

text \<open>\<open>msg.parts?.find(p => p.type === 'text')?.text ?? ''\<close>, then the message class by role.\<close>

definition mapUIMessage :: "ui_message \<Rightarrow> base_message" where
  "mapUIMessage msg =
     (let c = (case ui_parts msg of
                 None \<Rightarrow> []
               | Some ps \<Rightarrow> (case find_text_part ps of None \<Rightarrow> [] | Some p \<Rightarrow> or_empty (part_text p)))
      in if ui_role msg = js ''user'' then HumanMessage c
         else if ui_role msg = js ''assistant'' then AIMessage c
         else HumanMessage c)"

definition mapUIMessagesToLangChainMessages :: "ui_message list \<Rightarrow> base_message list" where
  "mapUIMessagesToLangChainMessages ms = map mapUIMessage ms"

text \<open>The message of the \<open>TypeError\<close> that \<open>undefined.slice\<close> raises.\<close>

definition type_error :: jstring where
  "type_error = js ''TypeError''"

text \<open>
  The title in \<open>createNewSession\<close>: \<open>'New Chat'\<close>, or the first 50 code units of the
  text of the first part of the first user message when that part has type \<open>text\<close>.
\<close>

definition title_chat :: "ui_message list \<Rightarrow> jstring + jstring" where
  "title_chat ms =
     (case List.find (\<lambda>m. ui_role m = js ''user'') ms of
        None \<Rightarrow> Inr (js ''New Chat'')
      | Some firstMessage \<Rightarrow>
          (case ui_parts firstMessage of
             None \<Rightarrow> Inr (js ''New Chat'')
           | Some [] \<Rightarrow> Inr (js ''New Chat'')
           | Some (p # rest) \<Rightarrow>
               if part_type p = js ''text''
               then (case part_text p of None \<Rightarrow> Inl type_error | Some text \<Rightarrow> Inr (take 50 text))
               else Inr (js ''New Chat'')))"

definition createNewSession ::
  "env \<Rightarrow> world \<Rightarrow> jstring \<Rightarrow> ui_message list \<Rightarrow> (jstring + jstring) \<times> world \<times> event list" where
  "createNewSession env w u ms =
     (case fault env ConnectSession of
        Some e \<Rightarrow> (Inl e, w, [])
      | None \<Rightarrow>
          (case title_chat ms of
             Inl e \<Rightarrow> (Inl e, w, [Log ErrorInCreateNewSession e])
           | Inr t \<Rightarrow>
               (case fault env InsertSession of
                  Some e \<Rightarrow> (Inl e, w, [Log ErrorInCreateNewSession e])
                | None \<Rightarrow> (Inr (new_session_id env), insert_session env t u w, []))))"

definition api_error_chat :: "jstring \<Rightarrow> world \<Rightarrow> event list \<Rightarrow> outcome" where
  "api_error_chat e w evs =
     (ErrorResponse 500 (js ''An error occurred processing your request'') (Some e), w,
      evs @ [Log ApiError e])"

text \<open>The parameter \<open>oldSummary\<close> is not used by the source either.\<close>

definition updateSessionSummary ::
  "env \<Rightarrow> jstring \<Rightarrow> jstring \<Rightarrow> jstring \<Rightarrow> world \<Rightarrow> world \<times> event list" where
  "updateSessionSummary env sid oldSummary allHistory w =
     (case fault env Summarizer of
        Some e \<Rightarrow> (w, [Call (SummarizeAll allHistory), Log FailedToUpdateSummary e])
      | None \<Rightarrow>
          (case fault env UpdateSummary of
             Some e \<Rightarrow> (w, [Call (SummarizeAll allHistory), Log FailedToUpdateSummary e])
           | None \<Rightarrow> (update_summary sid (summarizer_output env) w, [Call (SummarizeAll allHistory)])))"

text \<open>The \<open>try\<close> block after the loop: both messages, then the summary.\<close>

definition persist_chat ::
  "env \<Rightarrow> jstring \<Rightarrow> jstring \<Rightarrow> base_message list \<Rightarrow> jstring \<Rightarrow> jstring \<Rightarrow> world
     \<Rightarrow> world \<times> event list" where
  "persist_chat env sid persistedSummary dbHistory input assistantText w =
     (case fault env AddMessages of
        Some e \<Rightarrow> (w, [Log DatabaseSaveError e])
      | None \<Rightarrow>
          (let w1 = addMessages sid (now env AddMessages) [HumanMessage input, AIMessage assistantText] w;
               allHistoryForSummary =
                 join [10] (map formatMessageForSummary dbHistory
                            @ [user_label @ input, assistant_label @ assistantText])
           in updateSessionSummary env sid persistedSummary allHistoryForSummary w1))"

text \<open>The loop over the stream: the text so far and the chunks enqueued.\<close>

fun read_chunks_chat :: "jstring list \<Rightarrow> jstring \<times> jstring list \<Rightarrow> jstring \<times> jstring list" where
  "read_chunks_chat [] acc = acc"
| "read_chunks_chat (chunk # rest) (assistantText, enqueued) =
     (if truthy chunk \<and> length chunk > 0
      then read_chunks_chat rest (assistantText @ chunk, enqueued @ [chunk])
      else read_chunks_chat rest (assistantText, enqueued))"

definition stream_chat ::
  "env \<Rightarrow> jstring \<Rightarrow> jstring \<Rightarrow> base_message list \<Rightarrow> jstring \<Rightarrow> world \<Rightarrow> event list \<Rightarrow> outcome" where
  "stream_chat env sid persistedSummary dbHistory input w evs =
     (let assistantText = fst (read_chunks_chat (stream_chunks env) ([], []));
          enqueued = snd (read_chunks_chat (stream_chunks env) ([], []))
      in case stream_error env of
           Some e \<Rightarrow> (StreamResponse (Some sid) enqueued (Errored e), w, evs @ [Log StreamError e])
         | None \<Rightarrow>
             if truthy assistantText
             then (let r = persist_chat env sid persistedSummary dbHistory input assistantText w
                   in (StreamResponse (Some sid) enqueued Closed, fst r, evs @ snd r))
             else (StreamResponse (Some sid) enqueued Closed, w, evs))"

text \<open>\<open>xs.filter(m => m instanceof HumanMessage).pop()\<close> and \<open>xs.lastIndexOf\<close> of that object.\<close>

definition last_human :: "base_message list \<Rightarrow> base_message option" where
  "last_human xs = (case filter (\<lambda>m. kind m = Human) xs of [] \<Rightarrow> None | y # ys \<Rightarrow> Some (last (y # ys)))"

definition last_human_index :: "base_message list \<Rightarrow> nat option" where
  "last_human_index xs =
     (case filter (\<lambda>i. kind (xs ! i) = Human) (rev [0..<length xs]) of [] \<Rightarrow> None | i # rest \<Rightarrow> Some i)"

text \<open>Step 2: the history of this turn, with the incoming user message at its end.\<close>

definition fullHistory_chat :: "request \<Rightarrow> bool \<Rightarrow> base_message list \<Rightarrow> base_message list" where
  "fullHistory_chat req isNewSession dbHistory =
     (if isNewSession then mapUIMessagesToLangChainMessages (messages req)
      else (case last_human (mapUIMessagesToLangChainMessages (messages req)) of
              Some latestUserMessage \<Rightarrow> dbHistory @ [latestUserMessage]
            | None \<Rightarrow> dbHistory))"

text \<open>\<open>lastUserMessage?.content.toString() ?? ''\<close>\<close>

definition input_chat :: "base_message list \<Rightarrow> jstring" where
  "input_chat fullHistory =
     (case last_human fullHistory of None \<Rightarrow> [] | Some lastUserMessage \<Rightarrow> content lastUserMessage)"

text \<open>Step 4: the history before the last user message, trimmed to 10000 tokens, not starting with an AI message.\<close>

definition historyWithoutLastInput :: "base_message list \<Rightarrow> base_message list" where
  "historyWithoutLastInput fullHistory =
     (case last_human_index fullHistory of None \<Rightarrow> fullHistory | Some i \<Rightarrow> take i fullHistory)"

definition recentWindow_chat :: "env \<Rightarrow> base_message list \<Rightarrow> base_message list" where
  "recentWindow_chat env fullHistory =
     (let trimmed = (if length (historyWithoutLastInput fullHistory) > 0
                     then trimMessages (tiktokenCounter env) 10000 (historyWithoutLastInput fullHistory)
                     else [])
      in if length trimmed > 0 \<and> kind (hd trimmed) = AI then tl trimmed else trimmed)"

text \<open>Steps 2 to 6 of the chat route, for a session id that is settled.\<close>

definition answer_chat :: "env \<Rightarrow> world \<Rightarrow> event list \<Rightarrow> request \<Rightarrow> bool \<Rightarrow> jstring \<Rightarrow> outcome" where
  "answer_chat env w evs req isNewSession currentSessionId =
     (case fault env SelectSummary of
        Some e \<Rightarrow> api_error_chat e w evs
      | None \<Rightarrow>
     (case fault env GetMessages of
        Some e \<Rightarrow> api_error_chat e w evs
      | None \<Rightarrow>
     (let persistedSummary = select_summary w currentSessionId;
          dbHistory = getMessages w currentSessionId;
          fullHistory = fullHistory_chat req isNewSession dbHistory;
          input = input_chat fullHistory
      in if \<not> truthy input then (TextResponse 400 (js ''No valid user input found.''), w, evs)
         else
          (let call = Call (ChatChain (if truthy persistedSummary then persistedSummary else no_previous_context)
                              input (recentWindow_chat env fullHistory))
           in case fault env StreamOpen of
                Some e \<Rightarrow> api_error_chat e w (evs @ [call])
              | None \<Rightarrow> stream_chat env currentSessionId persistedSummary dbHistory input w (evs @ [call])))))"

definition POST_chat :: "env \<Rightarrow> world \<Rightarrow> request \<Rightarrow> outcome" where
  "POST_chat env w req =
     (let isNewSession = \<not> truthy_opt (sessionId req) in
      case (if isNewSession
            then (if \<not> truthy_opt (userId req)
                  then (Inl (js ''User ID is required for new sessions''), w, [])
                  else createNewSession env w (or_empty (userId req)) (messages req))
            else (Inr (or_empty (sessionId req)), w, [])) of
        (Inl e, w1, evs) \<Rightarrow> api_error_chat e w1 evs
      | (Inr currentSessionId, w1, evs) \<Rightarrow>
          if \<not> truthy currentSessionId
          then api_error_chat (js ''Failed to create session ID'') w1 evs
          else answer_chat env w1 evs req isNewSession currentSessionId)"

section \<open>POST of the RAG route\<close>

text \<open>
  The title of step 2: \<open>'New Chat'\<close>, or the first 50 code units of the first text part
  of the first user message, followed by \<open>'...'\<close> when the text is longer than 50.
\<close>

definition title_rag :: "ui_message list \<Rightarrow> jstring" where
  "title_rag ms =
     (case List.find (\<lambda>m. ui_role m = js ''user'') ms of
        None \<Rightarrow> js ''New Chat''
      | Some firstMessage \<Rightarrow>
          (case ui_parts firstMessage of
             None \<Rightarrow> js ''New Chat''
           | Some ps \<Rightarrow>
               if length ps > 0
               then (case find_text_part ps of
                       None \<Rightarrow> js ''New Chat''
                     | Some textPart \<Rightarrow>
                         (case part_text textPart of
                            None \<Rightarrow> js ''New Chat''
                          | Some text \<Rightarrow> take 50 text @ (if length text > 50 then js ''...'' else [])))
               else js ''New Chat''))"

definition resolve_session_rag :: "env \<Rightarrow> world \<Rightarrow> request \<Rightarrow> (jstring + jstring) \<times> world" where
  "resolve_session_rag env w req =
     (if truthy_opt (sessionId req) then (Inr (or_empty (sessionId req)), w)
      else case fault env ConnectSession of
             Some e \<Rightarrow> (Inl e, w)
           | None \<Rightarrow>
               (let t = title_rag (messages req)
                in if \<not> truthy_opt (userId req) then (Inl (js ''User ID is required''), w)
                   else (case fault env InsertSession of
                           Some e \<Rightarrow> (Inl e, w)
                         | None \<Rightarrow> (Inr (new_session_id env),
                                     insert_session env t (or_empty (userId req)) w))))"

definition api_error_rag :: "jstring \<Rightarrow> world \<Rightarrow> event list \<Rightarrow> outcome" where
  "api_error_rag e w evs =
     (ErrorResponse 500 (js ''An error occurred'') (Some e), w, evs @ [Log ApiError e])"

text \<open>Step 6: the text of the last user message; \<open>None\<close> is \<open>undefined\<close>.\<close>

definition last_user_input :: "ui_message list \<Rightarrow> jstring option" where
  "last_user_input ms =
     (case filter (\<lambda>m. ui_role m = js ''user'') ms of
        [] \<Rightarrow> Some []
      | u # us \<Rightarrow>
          (case ui_parts (last (u # us)) of
             None \<Rightarrow> Some []
           | Some ps \<Rightarrow>
               if length ps > 0
               then (case find_text_part ps of None \<Rightarrow> Some [] | Some textPart \<Rightarrow> part_text textPart)
               else Some []))"

text \<open>
  Step 7: the window without the current input, the summary of the overflow, and the
  events of the step. The request's own \<open>sessionId\<close> guards the step.
\<close>

definition budgeting_rag ::
  "env \<Rightarrow> request \<Rightarrow> base_message list \<Rightarrow> jstring \<Rightarrow> base_message list \<times> jstring \<times> event list" where
  "budgeting_rag env req fullHistory input =
     (if truthy_opt (sessionId req) \<and> length fullHistory > 0
      then (let trimmedWindow = fst (trim env 3000 (enumerate 0 fullHistory));
                overflow = snd (trim env 3000 (enumerate 0 fullHistory));
                recentWindowWithoutCurrentInput =
                  filter (\<lambda>msg. \<not> (kind (snd msg) = Human \<and> content (snd msg) = input)) trimmedWindow
            in if length overflow > 0
               then (let historyText = join [10] (map (\<lambda>m. formatMessageForSummary (snd m)) overflow)
                     in case fault env OverflowSummarizer of
                          Some e \<Rightarrow> (map snd recentWindowWithoutCurrentInput, [],
                                     [Call (SummarizeOverflow historyText), Log OverflowSummaryFailed e])
                        | None \<Rightarrow> (map snd recentWindowWithoutCurrentInput, overflow_summarizer_output env,
                                   [Call (SummarizeOverflow historyText)]))
               else (map snd recentWindowWithoutCurrentInput, [], []))
      else ([], [], []))"

text \<open>\<open>searchDocuments\<close>: \<open>Inl\<close> is the message of the error it throws.\<close>

definition searchDocuments :: "env \<Rightarrow> jstring \<Rightarrow> jstring + jstring" where
  "searchDocuments env query =
     (case search_outcome env of
        Inr results \<Rightarrow>
          if length results = 0 then Inr (not_found_prefix @ query @ not_found_suffix)
          else Inr (join [10, 10, 45, 45, 45, 10, 10] results)
      | Inl errorMessage \<Rightarrow>
          if js_includes errorMessage (js ''connection'')
             \<or> js_includes errorMessage (js ''network'')
             \<or> js_includes errorMessage (js ''timeout'')
          then Inl search_unavailable_now
          else Inl (search_failed_prefix @ errorMessage))"

text \<open>Step 9: the document context of the prompt, and the warning when the search threw.\<close>

definition retrieve :: "env \<Rightarrow> jstring \<Rightarrow> jstring \<times> event list" where
  "retrieve env input =
     (case searchDocuments env input of
        Inr documents \<Rightarrow> (documents, [])
      | Inl e \<Rightarrow> (search_unavailable_now, [Log SearchErrorWarn e]))"

text \<open>The loop of step 11: the text so far, \<open>hasSearchError\<close>, and the chunks enqueued.\<close>

fun read_chunks_rag ::
  "jstring list \<Rightarrow> jstring \<times> bool \<times> jstring list \<Rightarrow> jstring \<times> bool \<times> jstring list" where
  "read_chunks_rag [] acc = acc"
| "read_chunks_rag (chunk # rest) (assistantText, hasSearchError, enqueued) =
     (if js_includes chunk search_unavailable \<or> js_includes (assistantText @ chunk) search_unavailable
      then read_chunks_rag rest (friendlyMessage, True, enqueued @ [friendlyMessage])
      else read_chunks_rag rest (assistantText @ chunk, hasSearchError, enqueued @ [chunk]))"

text \<open>Steps 12 and 13, the \<open>try\<close> block: the assistant message, then the summary.\<close>

definition persist_rag ::
  "env \<Rightarrow> jstring \<Rightarrow> jstring \<Rightarrow> jstring \<Rightarrow> jstring \<Rightarrow> jstring \<Rightarrow> world \<Rightarrow> world \<times> event list" where
  "persist_rag env sid persistedSummary overflowSummary input assistantText w =
     (case fault env AddAIMessage of
        Some e \<Rightarrow> (w, [Log UpdateSummaryFailed e])
      | None \<Rightarrow>
          (let w1 = addMessage sid (now env AddAIMessage) (AIMessage assistantText) w;
               call = Call (SummarizeDelta
                              (if truthy persistedSummary then persistedSummary else no_previous_history)
                              (join [10] (filter truthy [overflowSummary, user_label @ input,
                                                         assistant_label @ assistantText])))
           in case fault env Summarizer of
                Some e \<Rightarrow> (w1, [call, Log UpdateSummaryFailed e])
              | None \<Rightarrow>
                  (case fault env ConnectUpdate of
                     Some e \<Rightarrow> (w1, [call, Log UpdateSummaryFailed e])
                   | None \<Rightarrow>
                       (case fault env UpdateSummary of
                          Some e \<Rightarrow> (w1, [call, Log UpdateSummaryFailed e])
                        | None \<Rightarrow> (update_summary sid (summarizer_output env) w1, [call])))))"

definition stream_rag ::
  "env \<Rightarrow> jstring \<Rightarrow> jstring \<Rightarrow> jstring \<Rightarrow> jstring \<Rightarrow> bool \<Rightarrow> world \<Rightarrow> outcome" where
  "stream_rag env sid persistedSummary overflowSummary input canSaveToDatabase w =
     (let assistantText = fst (read_chunks_rag (stream_chunks env) ([], False, []));
          hasSearchError = fst (snd (read_chunks_rag (stream_chunks env) ([], False, [])));
          enqueued = snd (snd (read_chunks_rag (stream_chunks env) ([], False, [])));
          header = (if truthy sid then Some sid else None)
      in case stream_error env of
           Some e \<Rightarrow> (StreamResponse header enqueued (Errored e), w, [])
         | None \<Rightarrow>
             (let warned = (if \<not> truthy assistantText then [Log EmptyResponse []] else [])
              in if truthy assistantText \<and> \<not> hasSearchError \<and> canSaveToDatabase
                 then (let r = persist_rag env sid persistedSummary overflowSummary input assistantText w
                       in (StreamResponse header enqueued Closed, fst r, warned @ snd r))
                 else (StreamResponse header enqueued Closed, w, warned)))"

text \<open>Step 10: the user message; a failure is a warning and clears \<open>canSaveToDatabase\<close>.\<close>

definition save_user :: "env \<Rightarrow> jstring \<Rightarrow> jstring \<Rightarrow> world \<Rightarrow> world \<times> bool \<times> event list" where
  "save_user env sid input w =
     (case fault env AddUserMessage of
        Some e \<Rightarrow> (w, False, [Log SaveUserMsgFailed e])
      | None \<Rightarrow> (addMessage sid (now env AddUserMessage) (HumanMessage input) w, True, []))"

text \<open>Steps 7 to 13, for a request that has an input.\<close>

definition answer_rag ::
  "env \<Rightarrow> world \<Rightarrow> request \<Rightarrow> jstring \<Rightarrow> jstring \<Rightarrow> base_message list \<Rightarrow> jstring \<Rightarrow> outcome" where
  "answer_rag env w req sid persistedSummary fullHistory input =
     (let b = budgeting_rag env req fullHistory input;
          recentWindow = fst b;
          overflowSummary = fst (snd b);
          summaryForThisTurn = join [10] (filter truthy [persistedSummary, overflowSummary]);
          documentContext = fst (retrieve env input);
          evs = snd (snd b) @ snd (retrieve env input)
                  @ [Call (RagChain input recentWindow summaryForThisTurn documentContext)]
      in case fault env StreamOpen of
           Some e \<Rightarrow> api_error_rag e w evs
         | None \<Rightarrow>
             (let u = save_user env sid input w;
                  r = stream_rag env sid persistedSummary overflowSummary input (fst (snd u)) (fst u)
              in (fst r, fst (snd r), evs @ snd (snd u) @ snd (snd r))))"

definition POST_rag :: "env \<Rightarrow> world \<Rightarrow> request \<Rightarrow> outcome" where
  "POST_rag env w req =
     (case resolve_session_rag env w req of
        (Inl e, w1) \<Rightarrow> api_error_rag e w1 []
      | (Inr currentSessionId, w1) \<Rightarrow>
     (case fault env ConnectSummary of
        Some e \<Rightarrow> api_error_rag e w1 []
      | None \<Rightarrow>
     (case fault env SelectSummary of
        Some e \<Rightarrow> api_error_rag e w1 []
      | None \<Rightarrow>
     (case fault env GetMessages of
        Some e \<Rightarrow> api_error_rag e w1 []
      | None \<Rightarrow>
          (let persistedSummary = select_summary w1 currentSessionId;
               fullHistory = getMessages w1 currentSessionId;
               input = last_user_input (messages req)
           in if \<not> truthy_opt input
              then (TextResponse 400 (js ''No valid user input found.''), w1, [])
              else answer_rag env w1 req currentSessionId persistedSummary fullHistory (or_empty input))))))"

section \<open>POST of the tool-calling agent route\<close>

text \<open>Step 2: \<open>lastUserMessage?.content || ""\<close>, replaced by the first text part if there is one.\<close>

definition last_user_content :: "ui_message list \<Rightarrow> jstring option" where
  "last_user_content ms =
     (case filter (\<lambda>m. ui_role m = js ''user'') ms of
        [] \<Rightarrow> Some []
      | u # us \<Rightarrow>
          (let lastUserMessage = last (u # us);
               inputContent = js_or (ui_content lastUserMessage) (Some [])
           in case ui_parts lastUserMessage of
                None \<Rightarrow> inputContent
              | Some ps \<Rightarrow>
                  if length ps > 0
                  then (case find_text_part ps of None \<Rightarrow> inputContent | Some textPart \<Rightarrow> part_text textPart)
                  else inputContent))"

definition api_error_agent :: "jstring \<Rightarrow> world \<Rightarrow> outcome" where
  "api_error_agent e w = (ErrorResponse 500 (js ''Server Error'') None, w, [Log ApiError e])"

text \<open>The loop over the agent's events; only the text of model-stream events is kept.\<close>

fun read_events_agent :: "jstring list \<Rightarrow> jstring \<times> jstring list \<Rightarrow> jstring \<times> jstring list" where
  "read_events_agent [] acc = acc"
| "read_events_agent (c # rest) (fullAiResponse, enqueued) =
     (if truthy c \<and> length c > 0
      then read_events_agent rest (fullAiResponse @ c, enqueued @ [c])
      else read_events_agent rest (fullAiResponse, enqueued))"

definition stream_agent :: "env \<Rightarrow> jstring \<Rightarrow> base_message list \<Rightarrow> world \<Rightarrow> outcome" where
  "stream_agent env sid historyMessages w =
     (let call = Call (AgentEvents historyMessages)
      in case fault env StreamOpen of
           Some e \<Rightarrow> (StreamResponse (Some sid) [] (Errored e), w, [call, Log StreamError e])
         | None \<Rightarrow>
             (let fullAiResponse = fst (read_events_agent (stream_chunks env) ([], []));
                  enqueued = snd (read_events_agent (stream_chunks env) ([], []))
              in case stream_error env of
                   Some e \<Rightarrow> (StreamResponse (Some sid) enqueued (Errored e), w, [call, Log StreamError e])
                 | None \<Rightarrow>
                     if truthy fullAiResponse
                     then (case fault env AddAIMessage of
                             Some e \<Rightarrow> (StreamResponse (Some sid) enqueued Closed, w,
                                        [call, Log FailedToSaveHistory e])
                           | None \<Rightarrow> (StreamResponse (Some sid) enqueued Closed,
                                       addMessage sid (now env AddAIMessage) (AIMessage fullAiResponse) w,
                                       [call]))
                     else (StreamResponse (Some sid) enqueued Closed, w, [call])))"

text \<open>\<open>sessionId || `session-${Date.now()}`\<close>\<close>

definition targetSessionId :: "env \<Rightarrow> request \<Rightarrow> jstring" where
  "targetSessionId env req =
     (if truthy_opt (sessionId req) then or_empty (sessionId req)
      else js ''session-'' @ decimal (date_now env))"

definition POST_agent :: "env \<Rightarrow> world \<Rightarrow> request \<Rightarrow> outcome" where
  "POST_agent env w req =
     (let inputContent = last_user_content (messages req)
      in if \<not> truthy_opt inputContent then (TextResponse 400 (js ''No input''), w, [])
         else case fault env AddUserMessage of
                Some e \<Rightarrow> api_error_agent e w
              | None \<Rightarrow>
                  (let w1 = addMessage (targetSessionId env req) (now env AddUserMessage)
                              (HumanMessage (or_empty inputContent)) w
                   in case fault env GetMessages of
                        Some e \<Rightarrow> api_error_agent e w1
                      | None \<Rightarrow> stream_agent env (targetSessionId env req)
                                  (getMessages w1 (targetSessionId env req)) w1))"

section \<open>Vocabulary of the properties\<close>

text \<open>The text a handler has accumulated when its stream is exhausted.\<close>

definition assistantText_chat :: "env \<Rightarrow> jstring" where
  "assistantText_chat env = fst (read_chunks_chat (stream_chunks env) ([], []))"

definition assistantText_rag :: "env \<Rightarrow> jstring" where
  "assistantText_rag env = fst (read_chunks_rag (stream_chunks env) ([], False, []))"

definition hasSearchError_rag :: "env \<Rightarrow> bool" where
  "hasSearchError_rag env = fst (snd (read_chunks_rag (stream_chunks env) ([], False, [])))"

definition fullAiResponse_agent :: "env \<Rightarrow> jstring" where
  "fullAiResponse_agent env = fst (read_events_agent (stream_chunks env) ([], []))"

text \<open>The rows of \<open>chat_messages\<close> that a request added.\<close>

definition newly_stored :: "world \<Rightarrow> world \<Rightarrow> message_row list" where
  "newly_stored w w' = drop (length (chat_messages w)) (chat_messages w')"

text \<open>The model stream was opened, ended without an error, and the response stream was closed.\<close>

definition stream_completed :: "env \<Rightarrow> response \<Rightarrow> bool" where
  "stream_completed env resp =
     (fault env StreamOpen = None \<and> stream_error env = None
      \<and> (case resp of StreamResponse h enq e \<Rightarrow> e = Closed | _ \<Rightarrow> False))"

text \<open>The rows a turn of the RAG route stores once the model stream is open.\<close>

definition rows_rag :: "env \<Rightarrow> jstring \<Rightarrow> jstring \<Rightarrow> message_row list" where
  "rows_rag env sid input =
     (if fault env AddUserMessage = None
      then message_to_stored sid (now env AddUserMessage) (HumanMessage input)
           # (if stream_error env = None \<and> truthy (assistantText_rag env) \<and> \<not> hasSearchError_rag env
                 \<and> fault env AddAIMessage = None
              then [message_to_stored sid (now env AddAIMessage) (AIMessage (assistantText_rag env))]
              else [])
      else [])"

text \<open>The rows a turn of the chat route stores once the model stream is open.\<close>

definition rows_chat :: "env \<Rightarrow> jstring \<Rightarrow> jstring \<Rightarrow> message_row list" where
  "rows_chat env sid input =
     (if stream_error env = None \<and> truthy (assistantText_chat env) \<and> fault env AddMessages = None
      then [message_to_stored sid (now env AddMessages) (HumanMessage input),
            message_to_stored sid (now env AddMessages) (AIMessage (assistantText_chat env))]
      else [])"

text \<open>The rows a turn of the agent route stores once it has an input.\<close>

definition rows_agent :: "env \<Rightarrow> jstring \<Rightarrow> jstring \<Rightarrow> message_row list" where
  "rows_agent env sid input =
     message_to_stored sid (now env AddUserMessage) (HumanMessage input)
     # (if fault env GetMessages = None \<and> fault env StreamOpen = None \<and> stream_error env = None
           \<and> truthy (fullAiResponse_agent env) \<and> fault env AddAIMessage = None
        then [message_to_stored sid (now env AddAIMessage) (AIMessage (fullAiResponse_agent env))]
        else [])"

text \<open>The document contexts of the calls to the RAG chain among the events of a request.\<close>

fun rag_context :: "event \<Rightarrow> jstring list" where
  "rag_context (Call (RagChain i h s c)) = [c]"
| "rag_context ev = []"

definition rag_contexts :: "event list \<Rightarrow> jstring list" where
  "rag_contexts evs = concat (map rag_context evs)"

text \<open>The calls that follow the stream: the writes of the turns and the summary, and the summarizer.\<close>

definition post_stream :: "op \<Rightarrow> bool" where
  "post_stream p = (p = AddAIMessage \<or> p = AddMessages \<or> p = Summarizer \<or> p = ConnectUpdate
                    \<or> p = UpdateSummary)"

text \<open>The error of the first call, in the given order, that rejects.\<close>

fun first_fault :: "env \<Rightarrow> op list \<Rightarrow> jstring option" where
  "first_fault env [] = None"
| "first_fault env (p # ps) = (case fault env p of Some e \<Rightarrow> Some e | None \<Rightarrow> first_fault env ps)"

text \<open>The summaries of the calls to the RAG chain among the events of a request.\<close>

fun rag_summary :: "event \<Rightarrow> jstring list" where
  "rag_summary (Call (RagChain i h s c)) = [s]"
| "rag_summary ev = []"

definition rag_summaries :: "event list \<Rightarrow> jstring list" where
  "rag_summaries evs = concat (map rag_summary evs)"

text \<open>The calls to the summarizer of the overflow.\<close>

fun overflow_call :: "event \<Rightarrow> bool" where
  "overflow_call (Call (SummarizeOverflow t)) = True"
| "overflow_call ev = False"

text \<open>The session of a turn: the one the request names, or the one the store has just made.\<close>

definition currentSessionId :: "env \<Rightarrow> request \<Rightarrow> jstring" where
  "currentSessionId env req =
     (if truthy_opt (sessionId req) then or_empty (sessionId req) else new_session_id env)"

section \<open>Example inputs\<close>

definition quiet :: env where
  "quiet = \<lparr> fault = (\<lambda>_. None), new_session_id = js ''s1'', now = (\<lambda>_. 7),
             encode = (\<lambda>s. s), search_outcome = Inr [], stream_chunks = [js ''Hi''],
             stream_error = None, summarizer_output = js ''sum'',
             overflow_summarizer_output = js ''old'', date_now = 1 \<rparr>"

definition row_of :: "jstring \<Rightarrow> string \<Rightarrow> string \<Rightarrow> nat \<Rightarrow> message_row" where
  "row_of sid ty txt t =
     \<lparr> session_id = sid,
       message = \<lparr> p_type = Some (js ty), p_content = Some (js txt), p_text = None, p_message = None \<rparr>,
       created_at = t \<rparr>"

definition three_rows :: world where
  "three_rows = \<lparr> chat_sessions = [],
                  chat_messages = [row_of (js ''s1'') ''tool'' ''42'' 9,
                                   row_of (js ''s1'') ''ai'' ''yes'' 5,
                                   row_of (js ''s1'') ''human'' ''q'' 3] \<rparr>"

definition talk :: "base_message list" where
  "talk = [HumanMessage (js ''aaaa''), AIMessage (js ''bb''), HumanMessage (js ''c'')]"

definition anonymous :: request where
  "anonymous = \<lparr> messages = [\<lparr> ui_role = js ''user'', ui_content = None,
                                ui_parts = Some [\<lparr> part_type = js ''text'', part_text = Some (js ''Hello'') \<rparr>] \<rparr>],
                  sessionId = None, userId = None \<rparr>"

definition greeting :: request where
  "greeting = \<lparr> messages = [\<lparr> ui_role = js ''user'', ui_content = None,
                                ui_parts = Some [\<lparr> part_type = js ''text'', part_text = Some (js ''Hello'') \<rparr>] \<rparr>],
                  sessionId = None, userId = Some (js ''u1'') \<rparr>"

definition wordy :: request where
  "wordy = \<lparr> messages = [\<lparr> ui_role = js ''user'', ui_content = None,
                                ui_parts = Some [\<lparr> part_type = js ''text'', part_text = Some (replicate 51 97) \<rparr>] \<rparr>],
                  sessionId = None, userId = Some (js ''u1'') \<rparr>"

definition empty_store :: world where
  "empty_store = \<lparr> chat_sessions = [], chat_messages = [] \<rparr>"


definition one_session :: world where
  "one_session = \<lparr> chat_sessions = [\<lparr> sess_id = js ''s1'', title = js ''Hello'', user_id = js ''u1'',
                                        summary = Some (js ''S0'') \<rparr>],
                     chat_messages = [] \<rparr>"

definition followup :: request where
  "followup = \<lparr> messages = [\<lparr> ui_role = js ''user'', ui_content = None,
                                ui_parts = Some [\<lparr> part_type = js ''text'', part_text = Some (js ''Hello'') \<rparr>] \<rparr>],
                  sessionId = Some (js ''s1''), userId = Some (js ''u1'') \<rparr>"

definition chatted :: world where
  "chatted = \<lparr> chat_sessions = [\<lparr> sess_id = js ''s1'', title = js ''Hello'', user_id = js ''u1'',
                                    summary = Some (js ''S0'') \<rparr>],
                 chat_messages = [row_of (js ''s1'') ''human'' ''q'' 3, row_of (js ''s1'') ''ai'' ''yes'' 5] \<rparr>"

definition unreachable :: env where
  "unreachable = quiet\<lparr> search_outcome := Inl (js ''network down'') \<rparr>"

definition no_summarizer :: env where
  "no_summarizer = quiet\<lparr> fault := (\<lambda>p. if p = Summarizer then Some (js ''quota'') else None) \<rparr>"

section \<open>Properties of the history read\<close>

lemma map_createdAt_items: "map h_createdAt (rows_to_items rows) = map created_at rows"
proof -
  have "map h_createdAt (rows_to_items rows) = map (\<lambda>ir. created_at (snd ir)) (enumerate 0 rows)"
    by (simp add: rows_to_items_def to_history_item_def Let_def comp_def)
  also have "\<dots> = map created_at (map snd (enumerate 0 rows))"
    by (simp only: map_map comp_def)
  also have "\<dots> = map created_at rows"
    by (simp only: map_snd_enumerate)
  finally show ?thesis .
qed

lemma sorted_select_history: "sorted (map created_at (select_history w sid))"
  by (simp add: select_history_def)

lemma mset_select_history:
  "mset (select_history w sid) = mset (filter (\<lambda>r. session_id r = sid) (chat_messages w))"
  by (simp add: select_history_def)

lemma select_history_unknown:
  "\<forall>r \<in> set (chat_messages w). session_id r \<noteq> sid \<Longrightarrow> select_history w sid = []"
  by (simp add: select_history_def filter_empty_conv)

lemma GET_chat_ok:
  assumes "sid \<noteq> []" "fault env ConnectHistory = None" "fault env SelectHistory = None"
  shows "GET_chat env w (Some sid) = (MessagesResponse 200 (rows_to_items (select_history w sid)), [])"
  using assms by (simp add: GET_chat_def truthy_opt_def truthy_def or_empty_def)

lemma GET_rag_ok:
  assumes "sid \<noteq> []" "fault env ConnectHistory = None" "fault env SelectHistory = None"
  shows "GET_rag env w (Some sid) = (MessagesResponse 200 (rows_to_items (select_history w sid)), [])"
  using assms by (simp add: GET_rag_def truthy_opt_def truthy_def or_empty_def)

lemma length_rows_to_items: "length (rows_to_items rows) = length rows"
  by (simp add: rows_to_items_def)

lemma nth_rows_to_items:
  assumes "i < length rows"
  shows "rows_to_items rows ! i = to_history_item (i, rows ! i)"
  using assms by (simp add: rows_to_items_def nth_enumerate_eq)

lemma item_fields:
  "h_id (to_history_item (i, row)) = js ''history-'' @ decimal i"
  "h_createdAt (to_history_item (i, row)) = created_at row"
  "h_content (to_history_item (i, row)) =
     (if truthy_opt (p_content (message row)) then or_empty (p_content (message row))
      else if truthy_opt (p_text (message row)) then or_empty (p_text (message row))
      else if truthy_opt (p_message (message row)) then or_empty (p_message (message row))
      else [])"
  by (simp_all add: to_history_item_def js_or_def or_empty_def truthy_opt_def Let_def)

lemma getMessages_unknown:
  "\<forall>r \<in> set (chat_messages w). session_id r \<noteq> sid \<Longrightarrow> getMessages w sid = []"
  by (simp add: getMessages_def select_history_unknown)

text \<open>
  C8. For a session id (a non-empty string; the empty string counts as no id) and a
  store that answers, both history handlers return status 200 with the messages made
  from the stored rows of the session, taken in non-decreasing order of \<open>created_at\<close>:
  as many messages as rows, the i-th with the \<open>created_at\<close> of the i-th row as its
  \<open>createdAt\<close>, the id \<open>history-i\<close>, and as content the first non-empty of the row's
  \<open>content\<close>, \<open>text\<close> and \<open>message\<close>; so the messages are in non-decreasing order
  of \<open>createdAt\<close>. The history the POST handlers load is made of the same rows in the
  same order. When the store holds no row of that session both are empty, the response
  still with status 200.
\<close>

theorem history_read_sorted_and_empty_for_unknown:
  assumes "sid \<noteq> []" "fault env ConnectHistory = None" "fault env SelectHistory = None"
  shows "\<exists>rows. GET_chat env w (Some sid) = (MessagesResponse 200 (rows_to_items rows), [])
           \<and> GET_rag env w (Some sid) = (MessagesResponse 200 (rows_to_items rows), [])
           \<and> mset rows = mset (filter (\<lambda>r. session_id r = sid) (chat_messages w))
           \<and> sorted (map created_at rows)
           \<and> length (rows_to_items rows) = length rows
           \<and> (\<forall>i < length rows.
                 h_createdAt (rows_to_items rows ! i) = created_at (rows ! i)
               \<and> h_id (rows_to_items rows ! i) = js ''history-'' @ decimal i
               \<and> h_content (rows_to_items rows ! i) =
                   (if truthy_opt (p_content (message (rows ! i))) then or_empty (p_content (message (rows ! i)))
                    else if truthy_opt (p_text (message (rows ! i))) then or_empty (p_text (message (rows ! i)))
                    else if truthy_opt (p_message (message (rows ! i))) then or_empty (p_message (message (rows ! i)))
                    else []))
           \<and> sorted (map h_createdAt (rows_to_items rows))
           \<and> getMessages w sid = map stored_to_message rows
           \<and> ((\<forall>r \<in> set (chat_messages w). session_id r \<noteq> sid)
                 \<longrightarrow> rows_to_items rows = [] \<and> getMessages w sid = [])"
proof (intro exI conjI allI impI)
  show "GET_chat env w (Some sid) = (MessagesResponse 200 (rows_to_items (select_history w sid)), [])"
    using assms by (rule GET_chat_ok)
  show "GET_rag env w (Some sid) = (MessagesResponse 200 (rows_to_items (select_history w sid)), [])"
    using assms by (rule GET_rag_ok)
  show "mset (select_history w sid) = mset (filter (\<lambda>r. session_id r = sid) (chat_messages w))"
    by (rule mset_select_history)
  show "sorted (map created_at (select_history w sid))"
    by (rule sorted_select_history)
  show "length (rows_to_items (select_history w sid)) = length (select_history w sid)"
    by (rule length_rows_to_items)
  show "sorted (map h_createdAt (rows_to_items (select_history w sid)))"
    by (simp add: map_createdAt_items sorted_select_history)
  show "getMessages w sid = map stored_to_message (select_history w sid)"
    by (simp add: getMessages_def)
next
  fix i assume i: "i < length (select_history w sid)"
  show "h_createdAt (rows_to_items (select_history w sid) ! i) = created_at (select_history w sid ! i)"
    by (simp add: nth_rows_to_items [OF i] item_fields)
  show "h_id (rows_to_items (select_history w sid) ! i) = js ''history-'' @ decimal i"
    by (simp add: nth_rows_to_items [OF i] item_fields)
  show "h_content (rows_to_items (select_history w sid) ! i) =
          (if truthy_opt (p_content (message (select_history w sid ! i)))
           then or_empty (p_content (message (select_history w sid ! i)))
           else if truthy_opt (p_text (message (select_history w sid ! i)))
           then or_empty (p_text (message (select_history w sid ! i)))
           else if truthy_opt (p_message (message (select_history w sid ! i)))
           then or_empty (p_message (message (select_history w sid ! i)))
           else [])"
    by (simp only: nth_rows_to_items [OF i] item_fields)
next
  assume u: "\<forall>r \<in> set (chat_messages w). session_id r \<noteq> sid"
  then show "rows_to_items (select_history w sid) = []"
    by (simp add: select_history_unknown rows_to_items_def)
  from u show "getMessages w sid = []"
    by (rule getMessages_unknown)
qed

theorem history_read_sorted_and_empty_for_unknown_witness:
  "GET_rag quiet three_rows (Some (js ''s2'')) = (MessagesResponse 200 [], [])
   \<and> GET_chat quiet three_rows (Some (js ''s2'')) = (MessagesResponse 200 [], [])
   \<and> getMessages three_rows (js ''s2'') = []
   \<and> (\<exists>rows. GET_rag quiet three_rows (Some (js ''s1'')) = (MessagesResponse 200 (rows_to_items rows), [])
          \<and> length (rows_to_items rows) = 3 \<and> sorted (map h_createdAt (rows_to_items rows)))
   \<and> GET_chat quiet three_rows (Some (js ''s1''))
        = (MessagesResponse 200
            [\<lparr> h_id = js ''history-0'', h_role = js ''user'', h_content = js ''q'', h_createdAt = 3 \<rparr>,
             \<lparr> h_id = js ''history-1'', h_role = js ''assistant'', h_content = js ''yes'', h_createdAt = 5 \<rparr>,
             \<lparr> h_id = js ''history-2'', h_role = js ''user'', h_content = js ''42'', h_createdAt = 9 \<rparr>], [])"
proof -
  have a: "js ''s2'' \<noteq> []" "js ''s1'' \<noteq> []"
    by (simp_all add: js_def)
  have f: "fault quiet ConnectHistory = None" "fault quiet SelectHistory = None"
    by (simp_all add: quiet_def)
  have u: "\<forall>r \<in> set (chat_messages three_rows). session_id r \<noteq> js ''s2''"
    by (simp add: three_rows_def row_of_def js_def)
  have k: "size (mset (filter (\<lambda>r. session_id r = js ''s1'') (chat_messages three_rows))) = 3"
    by (simp add: three_rows_def row_of_def)
  from history_read_sorted_and_empty_for_unknown [OF a(1) f, of three_rows] u
  have p: "GET_rag quiet three_rows (Some (js ''s2'')) = (MessagesResponse 200 [], [])
        \<and> GET_chat quiet three_rows (Some (js ''s2'')) = (MessagesResponse 200 [], [])
        \<and> getMessages three_rows (js ''s2'') = []"
    by auto
  from history_read_sorted_and_empty_for_unknown [OF a(2) f, of three_rows]
  obtain rows where r: "GET_rag quiet three_rows (Some (js ''s1'')) = (MessagesResponse 200 (rows_to_items rows), [])"
      "mset rows = mset (filter (\<lambda>r. session_id r = js ''s1'') (chat_messages three_rows))"
      "length (rows_to_items rows) = length rows" "sorted (map h_createdAt (rows_to_items rows))"
    by blast
  from r(2) k have "length rows = 3"
    by (metis size_mset)
  with r have q: "\<exists>rows. GET_rag quiet three_rows (Some (js ''s1'')) = (MessagesResponse 200 (rows_to_items rows), [])
          \<and> length (rows_to_items rows) = 3 \<and> sorted (map h_createdAt (rows_to_items rows))"
    by auto
  have e: "GET_chat quiet three_rows (Some (js ''s1''))
        = (MessagesResponse 200
            [\<lparr> h_id = js ''history-0'', h_role = js ''user'', h_content = js ''q'', h_createdAt = 3 \<rparr>,
             \<lparr> h_id = js ''history-1'', h_role = js ''assistant'', h_content = js ''yes'', h_createdAt = 5 \<rparr>,
             \<lparr> h_id = js ''history-2'', h_role = js ''user'', h_content = js ''42'', h_createdAt = 9 \<rparr>], [])"
    by (simp add: GET_chat_def quiet_def three_rows_def row_of_def select_history_def rows_to_items_def
          to_history_item_def role_of_def js_or_def or_empty_def truthy_opt_def truthy_def js_def
          decimal.simps Let_def)
  from p q e show ?thesis by blast
qed

lemma role_of_cases:
  "role_of t = (if t = Some (js ''ai'') then js ''assistant'' else js ''user'')"
  by (simp add: role_of_def)

lemma h_role_nth_item:
  assumes "i < length rows"
  shows "h_role (rows_to_items rows ! i) = role_of (p_type (message (rows ! i)))"
  using assms by (simp add: rows_to_items_def nth_enumerate_eq to_history_item_def Let_def)

lemma GET_chat_items:
  "fst (GET_chat env w s) = MessagesResponse st items \<Longrightarrow>
   items = rows_to_items (select_history w (or_empty s))"
  by (simp add: GET_chat_def split: if_splits option.splits)

lemma GET_rag_items:
  "fst (GET_rag env w s) = MessagesResponse st items \<Longrightarrow>
   items = rows_to_items (select_history w (or_empty s))"
  by (simp add: GET_rag_def split: if_splits option.splits)

text \<open>
  C10. Whenever a history handler answers with messages, the i-th message carries a role
  computed from the stored type of the i-th selected row: \<open>assistant\<close> for type
  \<open>ai\<close>, \<open>user\<close> for type \<open>human\<close>, and \<open>user\<close> again for every other type
  (a missing type included); so each role is \<open>user\<close> or \<open>assistant\<close>.
\<close>

theorem history_roles_user_or_assistant:
  assumes "fst (GET_chat env w s) = MessagesResponse st items
           \<or> fst (GET_rag env w s) = MessagesResponse st items"
    and "i < length items"
  shows "(p_type (message (select_history w (or_empty s) ! i)) = Some (js ''ai'')
            \<longrightarrow> h_role (items ! i) = js ''assistant'')
       \<and> (p_type (message (select_history w (or_empty s) ! i)) = Some (js ''human'')
            \<longrightarrow> h_role (items ! i) = js ''user'')
       \<and> (p_type (message (select_history w (or_empty s) ! i)) \<noteq> Some (js ''ai'')
            \<longrightarrow> h_role (items ! i) = js ''user'')
       \<and> (h_role (items ! i) = js ''user'' \<or> h_role (items ! i) = js ''assistant'')"
proof -
  from assms(1) have eq: "items = rows_to_items (select_history w (or_empty s))"
    using GET_chat_items GET_rag_items by blast
  with assms(2) have len: "i < length (select_history w (or_empty s))"
    by (simp add: rows_to_items_def)
  have "h_role (items ! i) = role_of (p_type (message (select_history w (or_empty s) ! i)))"
    unfolding eq using len by (rule h_role_nth_item)
  then show ?thesis
    by (simp add: role_of_cases js_def)
qed

theorem history_roles_user_or_assistant_witness:
  "p_type (message (select_history three_rows (js ''s1'') ! 2)) = Some (js ''tool'')
   \<and> h_role (rows_to_items (select_history three_rows (js ''s1'')) ! 2) = js ''user''
   \<and> p_type (message (select_history three_rows (js ''s1'') ! 1)) = Some (js ''ai'')
   \<and> h_role (rows_to_items (select_history three_rows (js ''s1'')) ! 1) = js ''assistant''
   \<and> p_type (message (select_history three_rows (js ''s1'') ! 0)) = Some (js ''human'')
   \<and> h_role (rows_to_items (select_history three_rows (js ''s1'')) ! 0) = js ''user''"
proof -
  have sel: "select_history three_rows (js ''s1'') =
               [row_of (js ''s1'') ''human'' ''q'' 3, row_of (js ''s1'') ''ai'' ''yes'' 5,
                row_of (js ''s1'') ''tool'' ''42'' 9]"
    by (simp add: select_history_def three_rows_def row_of_def)
  have g: "fst (GET_chat quiet three_rows (Some (js ''s1'')))
             = MessagesResponse 200 (rows_to_items (select_history three_rows (js ''s1'')))"
    by (simp add: GET_chat_def quiet_def truthy_opt_def truthy_def or_empty_def js_def)
  have l: "length (rows_to_items (select_history three_rows (js ''s1''))) = 3"
    by (simp add: sel rows_to_items_def)
  have t: "p_type (message (select_history three_rows (js ''s1'') ! 2)) = Some (js ''tool'')"
          "p_type (message (select_history three_rows (js ''s1'') ! 1)) = Some (js ''ai'')"
          "p_type (message (select_history three_rows (js ''s1'') ! 0)) = Some (js ''human'')"
    by (simp_all add: sel row_of_def)
  have n: "js ''tool'' \<noteq> js ''ai''"
    by (simp add: js_def)
  from history_roles_user_or_assistant [of quiet three_rows "Some (js ''s1'')" 200 _ 2, OF disjI1 [OF g]]
       history_roles_user_or_assistant [of quiet three_rows "Some (js ''s1'')" 200 _ 1, OF disjI1 [OF g]]
       history_roles_user_or_assistant [of quiet three_rows "Some (js ''s1'')" 200 _ 0, OF disjI1 [OF g]]
       l t n
  show ?thesis
    by (simp add: or_empty_def)
qed

section \<open>Properties of trimming\<close>

lemma fold_cost: "fold (\<lambda>m n. n + strTokenCounter env (role_label (kind m)) + strTokenCounter env (content m)) ms a
   = a + sum_list (map (turn_cost env) ms)"
  by (induction ms arbitrary: a) (simp_all add: turn_cost_def)

lemma tiktokenCounter_sum: "tiktokenCounter env ms = sum_list (map (turn_cost env) ms)"
  by (simp add: tiktokenCounter_def fold_cost)

lemma objCounter_Cons: "objCounter env (m # ms) = objCounter env [m] + objCounter env ms"
  by (simp add: objCounter_def tiktokenCounter_sum)

lemma scan_back_suffix:
  "\<exists>k. scan_back c b t xs win = rev (take k xs) @ win"
proof (induction xs arbitrary: t win)
  case Nil
  then show ?case by simp
next
  case (Cons m older)
  show ?case
  proof (cases "t + c [m] \<le> b")
    case True
    from Cons.IH [of "t + c [m]" "m # win"] obtain k
      where "scan_back c b (t + c [m]) older (m # win) = rev (take k older) @ m # win" by blast
    with True have "scan_back c b t (m # older) win = rev (take (Suc k) (m # older)) @ win"
      by simp
    then show ?thesis by blast
  next
    case False
    then have "scan_back c b t (m # older) win = rev (take 0 (m # older)) @ win"
      by simp
    then show ?thesis by blast
  qed
qed

lemma scan_back_budget:
  assumes "\<And>m ms. c (m # ms) = c [m] + c ms" "c win = t" "t \<le> b"
  shows "c (scan_back c b t xs win) \<le> b"
  using assms(2,3)
proof (induction xs arbitrary: t win)
  case Nil
  then show ?case by simp
next
  case (Cons m older)
  show ?case
  proof (cases "t + c [m] \<le> b")
    case True
    have "c (m # win) = t + c [m]" using assms(1) [of m win] Cons.prems(1) by simp
    from Cons.IH [OF this True] True show ?thesis by simp
  next
    case False
    with Cons.prems show ?thesis by simp
  qed
qed

lemma trimMessages_suffix: "\<exists>older. history = older @ trimMessages c b history"
proof -
  obtain k where "trimMessages c b history = rev (take k (rev history))"
    unfolding trimMessages_def using scan_back_suffix [of c b 0 "rev history" "[]"] by auto
  then have "trimMessages c b history = drop (length history - k) history"
    by (simp add: rev_take)
  then have "history = take (length history - k) history @ trimMessages c b history"
    by simp
  then show ?thesis by blast
qed

lemma trimMessages_budget: "objCounter env (trimMessages (objCounter env) b history) \<le> b"
proof -
  have a: "\<And>m ms. objCounter env (m # ms) = objCounter env [m] + objCounter env ms"
    by (rule objCounter_Cons)
  have z: "objCounter env [] = 0"
    by (simp add: objCounter_def tiktokenCounter_def)
  show ?thesis
    unfolding trimMessages_def by (rule scan_back_budget [OF a z]) simp
qed

lemma tiktokenCounter_Cons:
  "tiktokenCounter env (m # ms) = tiktokenCounter env [m] + tiktokenCounter env ms"
  by (simp add: tiktokenCounter_sum)

lemma trimMessages_tiktoken_budget:
  "tiktokenCounter env (trimMessages (tiktokenCounter env) b history) \<le> b"
proof -
  have a: "\<And>m ms. tiktokenCounter env (m # ms) = tiktokenCounter env [m] + tiktokenCounter env ms"
    by (rule tiktokenCounter_Cons)
  have z: "tiktokenCounter env [] = 0"
    by (simp add: tiktokenCounter_def)
  show ?thesis
    unfolding trimMessages_def by (rule scan_back_budget [OF a z]) simp
qed

lemma recentWindow_chat_budget: "tiktokenCounter env (recentWindow_chat env fullHistory) \<le> 10000"
proof -
  have t: "tiktokenCounter env (tl xs) \<le> tiktokenCounter env xs" for xs
    by (cases xs) (simp_all add: tiktokenCounter_sum)
  have z: "tiktokenCounter env [] = 0"
    by (simp add: tiktokenCounter_def)
  show ?thesis
    using trimMessages_tiktoken_budget [of env 10000 "historyWithoutLastInput fullHistory"]
          t [of "trimMessages (tiktokenCounter env) 10000 (historyWithoutLastInput fullHistory)"] z
    by (auto simp add: recentWindow_chat_def Let_def)
qed

lemma recentWindow_chat_suffix:
  "\<exists>older. historyWithoutLastInput fullHistory = older @ recentWindow_chat env fullHistory"
proof -
  obtain older where o: "historyWithoutLastInput fullHistory
      = older @ trimMessages (tiktokenCounter env) 10000 (historyWithoutLastInput fullHistory)"
    using trimMessages_suffix by blast
  show ?thesis
  proof (cases "trimMessages (tiktokenCounter env) 10000 (historyWithoutLastInput fullHistory)")
    case Nil
    with o show ?thesis by (auto simp add: recentWindow_chat_def Let_def)
  next
    case (Cons m ms)
    with o have "historyWithoutLastInput fullHistory = (older @ [m]) @ ms" by simp
    with o Cons show ?thesis
      by (cases "kind m = AI") (auto simp add: recentWindow_chat_def Let_def)
  qed
qed

lemmas eval_trim = trim_def trimMessagesObjects_def copy_of_def fresh_ref_def trimMessages_def objCounter_def
  tiktokenCounter_def strTokenCounter_def role_label_def stored_to_message_def stored_kind_def
  formatMessageForSummary_def

lemma fold_max_ge: "(a::nat) \<le> fold max xs a"
proof (induction xs arbitrary: a)
  case Nil
  show ?case by simp
next
  case (Cons y ys)
  have "a \<le> max y a" by simp
  also have "\<dots> \<le> fold max ys (max y a)" by (rule Cons.IH)
  finally show ?case by simp
qed

lemma fold_max_member: "x \<in> set xs \<Longrightarrow> (x::nat) \<le> fold max xs a"
proof (induction xs arbitrary: a)
  case Nil
  then show ?case by simp
next
  case (Cons y ys)
  show ?case
  proof (cases "x = y")
    case True
    have "y \<le> max y a" by simp
    also have "\<dots> \<le> fold max ys (max y a)" by (rule fold_max_ge)
    finally show ?thesis using True by simp
  next
    case False
    with Cons.prems have "x \<in> set ys" by simp
    from Cons.IH [OF this] show ?thesis by simp
  qed
qed

lemma below_fresh_ref: "m \<in> set history \<Longrightarrow> fst m < fresh_ref history"
proof -
  assume "m \<in> set history"
  then have "fst m \<in> set (map fst history)" by simp
  from fold_max_member [OF this, of 0] show ?thesis by (simp add: fresh_ref_def less_Suc_eq_le)
qed

lemma window_objects_are_new:
  assumes "m \<in> set history"
  shows "m \<notin> set (trimMessagesObjects c b history)"
proof
  assume "m \<in> set (trimMessagesObjects c b history)"
  then obtain x where "m = copy_of (fresh_ref history) x"
    by (auto simp add: trimMessagesObjects_def)
  then have "fresh_ref history \<le> fst m" by (simp add: copy_of_def)
  with below_fresh_ref [OF assms] show False by simp
qed

lemma trim_overflow_is_history: "snd (trim env b history) = history"
  by (simp add: trim_def Let_def window_objects_are_new filter_id_conv)

lemma trim_window_values:
  "map snd (fst (trim env b history)) = map snd (trimMessages (objCounter env) b history)"
  by (simp add: trim_def Let_def trimMessagesObjects_def copy_of_def comp_def)

lemma trim_window_budget: "objCounter env (fst (trim env b history)) \<le> b"
proof -
  have "objCounter env (fst (trim env b history))
          = objCounter env (trimMessages (objCounter env) b history)"
    by (simp add: objCounter_def trim_window_values)
  then show ?thesis by (simp add: trimMessages_budget)
qed

text \<open>
  C2. The claim asks that the window of a trim be within the budget (or a single turn)
  and that the overflow followed by the window be the history, no turn twice. The RAG
  route computes the overflow as the loaded messages that are not objects of the window;
  the window is made of new objects, so every loaded message stays in the overflow. For
  a session whose stored history is a user turn \<open>q\<close> and an assistant turn \<open>yes\<close>,
  with the route's budget of 3000, the window holds both turns and is within the budget,
  the overflow is the whole history, and overflow followed by window has each turn twice.
\<close>

theorem trim_overflow_keeps_whole_history:
  "getMessages chatted (js ''s1'') = [HumanMessage (js ''q''), AIMessage (js ''yes'')]
   \<and> trim quiet 3000 (enumerate 0 (getMessages chatted (js ''s1'')))
       = ([(2, HumanMessage (js ''q'')), (3, AIMessage (js ''yes''))],
          [(0, HumanMessage (js ''q'')), (1, AIMessage (js ''yes''))])
   \<and> map snd (snd (trim quiet 3000 (enumerate 0 (getMessages chatted (js ''s1''))))
               @ fst (trim quiet 3000 (enumerate 0 (getMessages chatted (js ''s1'')))))
       = [HumanMessage (js ''q''), AIMessage (js ''yes''), HumanMessage (js ''q''), AIMessage (js ''yes'')]
   \<and> objCounter quiet (fst (trim quiet 3000 (enumerate 0 (getMessages chatted (js ''s1''))))) \<le> 3000"
  by (simp add: eval_trim getMessages_def select_history_def quiet_def chatted_def row_of_def
        HumanMessage_def AIMessage_def js_def or_empty_def Let_def)

section \<open>What the handlers leave in the store\<close>

lemma sessions_addMessage [simp]: "chat_sessions (addMessage sid t m w) = chat_sessions w"
  by (simp add: addMessage_def)
lemma messages_addMessage [simp]:
  "chat_messages (addMessage sid t m w) = chat_messages w @ [message_to_stored sid t m]"
  by (simp add: addMessage_def)
lemma sessions_addMessages [simp]: "chat_sessions (addMessages sid t ms w) = chat_sessions w"
  unfolding addMessages_def by (induction ms arbitrary: w) simp_all
lemma messages_addMessages [simp]:
  "chat_messages (addMessages sid t ms w) = chat_messages w @ map (message_to_stored sid t) ms"
  unfolding addMessages_def by (induction ms arbitrary: w) simp_all
lemma messages_update_summary [simp]: "chat_messages (update_summary sid new w) = chat_messages w"
  by (simp add: update_summary_def)
lemma titles_update_summary [simp]:
  "map title (chat_sessions (update_summary sid new w)) = map title (chat_sessions w)"
  by (simp add: update_summary_def comp_def)
lemma messages_insert_session [simp]: "chat_messages (insert_session env t u w) = chat_messages w"
  by (simp add: insert_session_def)
lemma titles_insert_session [simp]:
  "map title (chat_sessions (insert_session env t u w)) = map title (chat_sessions w) @ [t]"
  by (simp add: insert_session_def)

section \<open>Evaluating a request\<close>

lemmas eval_rag = POST_rag_def resolve_session_rag_def answer_rag_def budgeting_rag_def retrieve_def
  searchDocuments_def save_user_def stream_rag_def persist_rag_def api_error_rag_def last_user_input_def
  find_text_part_def title_rag_def select_summary_def getMessages_def select_history_def
  insert_session_def update_summary_def addMessage_def message_to_stored_def kind_type_def
  HumanMessage_def AIMessage_def truthy_def truthy_opt_def or_empty_def Let_def


section \<open>Requests without an owner\<close>

text \<open>
  C5. A request with no session id and no user id is rejected by both handlers with
  status 500 and the message that the user id is required (in the RAG route the
  connection is taken first, so a connection failure is reported instead); the store is
  unchanged, so no session row and no turn is written, and the only event is the line on
  the console: no model call is made.
\<close>

theorem new_session_without_owner_rejected:
  assumes "\<not> truthy_opt (sessionId req)" "\<not> truthy_opt (userId req)"
  shows "POST_chat env w req =
           (ErrorResponse 500 (js ''An error occurred processing your request'')
              (Some (js ''User ID is required for new sessions'')), w,
            [Log ApiError (js ''User ID is required for new sessions'')])
       \<and> POST_rag env w req =
           (ErrorResponse 500 (js ''An error occurred'')
              (Some (case fault env ConnectSession of Some c \<Rightarrow> c | None \<Rightarrow> js ''User ID is required'')), w,
            [Log ApiError (case fault env ConnectSession of Some c \<Rightarrow> c | None \<Rightarrow> js ''User ID is required'')])"
proof
  show "POST_chat env w req =
           (ErrorResponse 500 (js ''An error occurred processing your request'')
              (Some (js ''User ID is required for new sessions'')), w,
            [Log ApiError (js ''User ID is required for new sessions'')])"
    using assms by (simp add: POST_chat_def api_error_chat_def)
  show "POST_rag env w req =
           (ErrorResponse 500 (js ''An error occurred'')
              (Some (case fault env ConnectSession of Some c \<Rightarrow> c | None \<Rightarrow> js ''User ID is required'')), w,
            [Log ApiError (case fault env ConnectSession of Some c \<Rightarrow> c | None \<Rightarrow> js ''User ID is required'')])"
    using assms by (simp add: POST_rag_def resolve_session_rag_def api_error_rag_def Let_def split: option.splits)
qed

theorem new_session_without_owner_rejected_witness:
  "POST_chat quiet three_rows anonymous =
           (ErrorResponse 500 (js ''An error occurred processing your request'')
              (Some (js ''User ID is required for new sessions'')), three_rows,
            [Log ApiError (js ''User ID is required for new sessions'')])
   \<and> POST_rag quiet three_rows anonymous =
           (ErrorResponse 500 (js ''An error occurred'') (Some (js ''User ID is required'')), three_rows,
            [Log ApiError (js ''User ID is required'')])"
proof -
  have a: "\<not> truthy_opt (sessionId anonymous)" "\<not> truthy_opt (userId anonymous)"
    by (simp_all add: anonymous_def truthy_opt_def)
  have f: "fault quiet ConnectSession = None"
    by (simp add: quiet_def)
  from new_session_without_owner_rejected [OF a, of quiet three_rows] f show ?thesis
    by simp
qed

section \<open>The title of a new session\<close>

lemma titles_persist_chat [simp]:
  "map title (chat_sessions (fst (persist_chat env sid ps db i t w))) = map title (chat_sessions w)"
  by (simp add: persist_chat_def updateSessionSummary_def Let_def split: option.splits)

lemma titles_stream_chat [simp]:
  "map title (chat_sessions (fst (snd (stream_chat env sid ps db i w evs)))) = map title (chat_sessions w)"
  by (simp add: stream_chat_def Let_def split: option.splits)

lemma titles_answer_chat [simp]:
  "map title (chat_sessions (fst (snd (answer_chat env w evs req isNew sid)))) = map title (chat_sessions w)"
  by (simp add: answer_chat_def api_error_chat_def Let_def split: option.splits)

lemma titles_POST_chat:
  "\<exists>ts. map title (chat_sessions (fst (snd (POST_chat env w req)))) = map title (chat_sessions w) @ ts
        \<and> (ts = [] \<or> (\<not> truthy_opt (sessionId req) \<and> title_chat (messages req) = Inr (hd ts) \<and> length ts = 1))"
  by (auto simp add: POST_chat_def createNewSession_def api_error_chat_def Let_def split: option.splits sum.splits)

lemma titles_persist_rag [simp]:
  "map title (chat_sessions (fst (persist_rag env sid ps os i t w))) = map title (chat_sessions w)"
  by (simp add: persist_rag_def Let_def split: option.splits)

lemma titles_stream_rag [simp]:
  "map title (chat_sessions (fst (snd (stream_rag env sid ps os i c w)))) = map title (chat_sessions w)"
  by (simp add: stream_rag_def Let_def split: option.splits)

lemma titles_save_user [simp]:
  "map title (chat_sessions (fst (save_user env sid i w))) = map title (chat_sessions w)"
  by (simp add: save_user_def split: option.splits)

lemma titles_answer_rag [simp]:
  "map title (chat_sessions (fst (snd (answer_rag env w req sid ps fh i)))) = map title (chat_sessions w)"
  by (simp add: answer_rag_def api_error_rag_def Let_def split: option.splits)

lemma titles_POST_rag:
  "\<exists>ts. map title (chat_sessions (fst (snd (POST_rag env w req)))) = map title (chat_sessions w) @ ts
        \<and> (ts = [] \<or> (\<not> truthy_opt (sessionId req) \<and> ts = [title_rag (messages req)]))"
  by (auto simp add: POST_rag_def resolve_session_rag_def api_error_rag_def Let_def split: option.splits sum.splits)

lemma title_chat_length: "title_chat ms = Inr t \<Longrightarrow> length t \<le> 50"
  by (auto simp add: title_chat_def js_def split: option.splits list.splits if_splits)

lemma title_rag_length: "length (title_rag ms) \<le> 53"
  by (auto simp add: title_rag_def js_def split: option.splits)

lemma title_of_first_text:
  assumes "List.find (\<lambda>m. ui_role m = js ''user'') ms = Some m" "ui_parts m = Some (p # ps)"
          "part_type p = js ''text''" "part_text p = Some text"
  shows "title_chat ms = Inr (take 50 text)"
    and "title_rag ms = take 50 text @ (if length text > 50 then js ''...'' else [])"
  using assms by (simp_all add: title_chat_def title_rag_def find_text_part_def)

text \<open>
  C9 (as the code has it). The title of a new session is the first 50 code units of the
  text of the first user message; the RAG route appends \<open>...\<close> when the text is
  longer than 50, so its title has at most 53 code units, the chat route's at most 50.
  No request changes the title of a session that exists: the titles after a request are
  the titles before, followed by at most the title of the session the request created.
\<close>

theorem title_is_first_user_text_truncated:
  "(\<forall>t. title_chat ms = Inr t \<longrightarrow> length t \<le> 50)
   \<and> length (title_rag ms) \<le> 53
   \<and> (List.find (\<lambda>m. ui_role m = js ''user'') ms = Some m \<and> ui_parts m = Some (p # ps)
        \<and> part_type p = js ''text'' \<and> part_text p = Some text
       \<longrightarrow> title_chat ms = Inr (take 50 text)
           \<and> title_rag ms = take 50 text @ (if length text > 50 then js ''...'' else []))
   \<and> (\<exists>ts. map title (chat_sessions (fst (snd (POST_chat env w req)))) = map title (chat_sessions w) @ ts
          \<and> (ts = [] \<or> (\<not> truthy_opt (sessionId req) \<and> title_chat (messages req) = Inr (hd ts) \<and> length ts = 1)))
   \<and> (\<exists>ts. map title (chat_sessions (fst (snd (POST_rag env w req)))) = map title (chat_sessions w) @ ts
          \<and> (ts = [] \<or> (\<not> truthy_opt (sessionId req) \<and> ts = [title_rag (messages req)])))"
  using title_chat_length [of ms] title_rag_length [of ms] title_of_first_text [of ms m p ps "text"]
        titles_POST_chat [of env w req] titles_POST_rag [of env w req]
  by blast

theorem title_is_first_user_text_truncated_witness:
  "title_chat (messages greeting) = Inr (js ''Hello'')
   \<and> title_rag (messages greeting) = js ''Hello''
   \<and> map title (chat_sessions (fst (snd (POST_rag quiet empty_store greeting)))) = [js ''Hello'']"
proof -
  have f: "List.find (\<lambda>m. ui_role m = js ''user'') (messages greeting)
             = Some \<lparr> ui_role = js ''user'', ui_content = None,
                      ui_parts = Some [\<lparr> part_type = js ''text'', part_text = Some (js ''Hello'') \<rparr>] \<rparr>"
    by (simp add: greeting_def)
  have t: "take 50 (js ''Hello'') = js ''Hello''" "\<not> length (js ''Hello'') > 50"
    by (simp_all add: js_def)
  have p: "map title (chat_sessions (fst (snd (POST_rag quiet empty_store greeting)))) = [js ''Hello'']"
    by (simp add: eval_rag quiet_def empty_store_def greeting_def js_def search_unavailable_def)
  from title_is_first_user_text_truncated
         [of "messages greeting"
             "\<lparr> ui_role = js ''user'', ui_content = None,
                ui_parts = Some [\<lparr> part_type = js ''text'', part_text = Some (js ''Hello'') \<rparr>] \<rparr>"
             "\<lparr> part_type = js ''text'', part_text = Some (js ''Hello'') \<rparr>" "[]" "js ''Hello''"
             quiet empty_store greeting] f t p
  show ?thesis
    by simp
qed

text \<open>
  The claim says that the stored title never exceeds 50 characters. A first message of
  51 letters gives the new session of the RAG route a title of 53 code units.
\<close>

theorem title_longer_than_fifty:
  "map title (chat_sessions (fst (snd (POST_rag quiet empty_store wordy)))) = [replicate 50 97 @ js ''...'']
   \<and> length (replicate 50 97 @ js ''...'') = 53"
  by (simp add: eval_rag quiet_def empty_store_def wordy_def js_def search_unavailable_def)

section \<open>The outcome of a turn\<close>

lemma response_stream_chat:
  "fst (stream_chat env sid ps db input w evs) =
     StreamResponse (Some sid) (snd (read_chunks_chat (stream_chunks env) ([], [])))
       (case stream_error env of None \<Rightarrow> Closed | Some e \<Rightarrow> Errored e)"
  by (simp add: stream_chat_def Let_def split: option.splits)

lemma messages_persist_chat:
  "chat_messages (fst (persist_chat env sid ps db input t w)) =
     chat_messages w @ (if fault env AddMessages = None
                        then [message_to_stored sid (now env AddMessages) (HumanMessage input),
                              message_to_stored sid (now env AddMessages) (AIMessage t)]
                        else [])"
  by (simp add: persist_chat_def updateSessionSummary_def Let_def split: option.splits)

lemma messages_stream_chat:
  "chat_messages (fst (snd (stream_chat env sid ps db input w evs))) =
     chat_messages w @ (if stream_error env = None \<and> truthy (assistantText_chat env) \<and> fault env AddMessages = None
                        then [message_to_stored sid (now env AddMessages) (HumanMessage input),
                              message_to_stored sid (now env AddMessages) (AIMessage (assistantText_chat env))]
                        else [])"
  by (simp add: stream_chat_def assistantText_chat_def messages_persist_chat Let_def split: option.splits)

lemma messages_createNewSession:
  "chat_messages (fst (snd (createNewSession env w u ms))) = chat_messages w"
  by (simp add: createNewSession_def insert_session_def split: option.splits sum.splits)

lemma messages_resolve_session_rag:
  "chat_messages (snd (resolve_session_rag env w req)) = chat_messages w"
  by (simp add: resolve_session_rag_def insert_session_def Let_def split: option.splits)

lemma response_stream_rag:
  "fst (stream_rag env sid ps os input c w) =
     StreamResponse (if truthy sid then Some sid else None)
       (snd (snd (read_chunks_rag (stream_chunks env) ([], False, []))))
       (case stream_error env of None \<Rightarrow> Closed | Some e \<Rightarrow> Errored e)"
  by (simp add: stream_rag_def Let_def split: option.splits)

lemma messages_persist_rag:
  "chat_messages (fst (persist_rag env sid ps os input t w)) =
     chat_messages w @ (if fault env AddAIMessage = None
                        then [message_to_stored sid (now env AddAIMessage) (AIMessage t)] else [])"
  by (simp add: persist_rag_def Let_def split: option.splits)

lemma messages_stream_rag:
  "chat_messages (fst (snd (stream_rag env sid ps os input c w))) =
     chat_messages w @
       (if stream_error env = None \<and> truthy (assistantText_rag env) \<and> \<not> hasSearchError_rag env \<and> c
           \<and> fault env AddAIMessage = None
        then [message_to_stored sid (now env AddAIMessage) (AIMessage (assistantText_rag env))] else [])"
  by (simp add: stream_rag_def assistantText_rag_def hasSearchError_rag_def messages_persist_rag Let_def
        split: option.splits)

lemma save_user_cases:
  "save_user env sid input w =
     (case fault env AddUserMessage of
        Some e \<Rightarrow> (w, False, [Log SaveUserMsgFailed e])
      | None \<Rightarrow> (addMessage sid (now env AddUserMessage) (HumanMessage input) w, True, []))"
  by (simp add: save_user_def)

lemma answer_rag_outcome:
  "(fault env StreamOpen \<noteq> None
      \<and> (\<exists>e. fst (answer_rag env w req sid ps fh input) = ErrorResponse 500 (js ''An error occurred'') (Some e))
      \<and> fst (snd (answer_rag env w req sid ps fh input)) = w)
   \<or> (fault env StreamOpen = None
      \<and> fst (answer_rag env w req sid ps fh input) =
           StreamResponse (if truthy sid then Some sid else None)
             (snd (snd (read_chunks_rag (stream_chunks env) ([], False, []))))
             (case stream_error env of None \<Rightarrow> Closed | Some e \<Rightarrow> Errored e)
      \<and> chat_messages (fst (snd (answer_rag env w req sid ps fh input))) = chat_messages w @ rows_rag env sid input)"
  by (auto simp add: answer_rag_def api_error_rag_def save_user_cases response_stream_rag messages_stream_rag
        rows_rag_def Let_def split: option.splits)

lemma POST_rag_stream:
  assumes "fst (POST_rag env w req) = StreamResponse h enq ending"
  shows "\<exists>sid input. fault env StreamOpen = None
           \<and> last_user_input (messages req) = Some input \<and> input \<noteq> []
           \<and> h = (if truthy sid then Some sid else None)
           \<and> ending = (case stream_error env of None \<Rightarrow> Closed | Some e \<Rightarrow> Errored e)
           \<and> chat_messages (fst (snd (POST_rag env w req))) = chat_messages w @ rows_rag env sid input"
proof -
  obtain r w1 where rs: "resolve_session_rag env w req = (r, w1)"
    by (cases "resolve_session_rag env w req") auto
  with messages_resolve_session_rag [of env w req] have m: "chat_messages w1 = chat_messages w" by simp
  show ?thesis
  proof (cases r)
    case (Inl e)
    with rs assms show ?thesis by (simp add: POST_rag_def api_error_rag_def)
  next
    case (Inr sid)
    from assms rs Inr obtain input where
      i: "last_user_input (messages req) = Some input" "input \<noteq> []" and
      a: "fst (POST_rag env w req) = fst (answer_rag env w1 req sid (select_summary w1 sid) (getMessages w1 sid) input)"
         "fst (snd (POST_rag env w req)) = fst (snd (answer_rag env w1 req sid (select_summary w1 sid) (getMessages w1 sid) input))"
      by (auto simp add: POST_rag_def api_error_rag_def Let_def truthy_opt_def truthy_def or_empty_def
            split: option.splits if_splits)
    from answer_rag_outcome [of env w1 req sid "select_summary w1 sid" "getMessages w1 sid" input] assms a m i
    show ?thesis by auto
  qed
qed

lemma POST_rag_no_stream:
  "(\<exists>h enq ending. fst (POST_rag env w req) = StreamResponse h enq ending)
   \<or> chat_messages (fst (snd (POST_rag env w req))) = chat_messages w"
proof -
  obtain r w1 where rs: "resolve_session_rag env w req = (r, w1)"
    by (cases "resolve_session_rag env w req") auto
  with messages_resolve_session_rag [of env w req] have m: "chat_messages w1 = chat_messages w" by simp
  show ?thesis
  proof (cases r)
    case (Inl e)
    with rs m show ?thesis by (simp add: POST_rag_def api_error_rag_def)
  next
    case (Inr sid)
    show ?thesis
      using rs Inr m
        answer_rag_outcome [of env w1 req sid "select_summary w1 sid" "getMessages w1 sid" "or_empty (last_user_input (messages req))"]
      by (auto simp add: POST_rag_def api_error_rag_def Let_def split: option.splits if_splits)
  qed
qed

lemma answer_chat_outcome:
  "(\<exists>st body. fst (answer_chat env w evs req isNew sid) = TextResponse st body
        \<and> fst (snd (answer_chat env w evs req isNew sid)) = w)
   \<or> (\<exists>st e d. fst (answer_chat env w evs req isNew sid) = ErrorResponse st e d
        \<and> fst (snd (answer_chat env w evs req isNew sid)) = w)
   \<or> (fault env StreamOpen = None
      \<and> fst (answer_chat env w evs req isNew sid) =
           StreamResponse (Some sid) (snd (read_chunks_chat (stream_chunks env) ([], [])))
             (case stream_error env of None \<Rightarrow> Closed | Some e \<Rightarrow> Errored e)
      \<and> (\<exists>input. chat_messages (fst (snd (answer_chat env w evs req isNew sid)))
                     = chat_messages w @ rows_chat env sid input))"
  by (auto simp add: answer_chat_def api_error_chat_def response_stream_chat messages_stream_chat
        rows_chat_def Let_def split: option.splits)

lemma POST_chat_outcome:
  "(\<exists>st body. fst (POST_chat env w req) = TextResponse st body
        \<and> chat_messages (fst (snd (POST_chat env w req))) = chat_messages w)
   \<or> (\<exists>st e d. fst (POST_chat env w req) = ErrorResponse st e d
        \<and> chat_messages (fst (snd (POST_chat env w req))) = chat_messages w)
   \<or> (fault env StreamOpen = None
      \<and> (\<exists>sid input. fst (POST_chat env w req) =
           StreamResponse (Some sid) (snd (read_chunks_chat (stream_chunks env) ([], [])))
             (case stream_error env of None \<Rightarrow> Closed | Some e \<Rightarrow> Errored e)
         \<and> chat_messages (fst (snd (POST_chat env w req))) = chat_messages w @ rows_chat env sid input))"
proof (cases "truthy_opt (sessionId req)")
  case True
  then show ?thesis
    using answer_chat_outcome [of env w "[]" req False "or_empty (sessionId req)"]
    by (auto simp add: POST_chat_def api_error_chat_def)
next
  case False
  show ?thesis
  proof (cases "truthy_opt (userId req)")
    case no: False
    with False show ?thesis by (simp add: POST_chat_def api_error_chat_def)
  next
    case yes: True
    obtain r w1 evs where cr: "createNewSession env w (or_empty (userId req)) (messages req) = (r, w1, evs)"
      by (cases "createNewSession env w (or_empty (userId req)) (messages req)") auto
    with messages_createNewSession [of env w "or_empty (userId req)" "messages req"]
    have m: "chat_messages w1 = chat_messages w" by simp
    show ?thesis
    proof (cases r)
      case (Inl e)
      with False yes cr m show ?thesis by (simp add: POST_chat_def api_error_chat_def)
    next
      case (Inr sid)
      with False yes cr m show ?thesis
        using answer_chat_outcome [of env w1 evs req True sid]
        by (auto simp add: POST_chat_def api_error_chat_def)
    qed
  qed
qed

lemma stream_agent_outcome:
  "chat_messages (fst (snd (stream_agent env sid hm w))) =
     chat_messages w @ (if fault env StreamOpen = None \<and> stream_error env = None
                           \<and> truthy (fullAiResponse_agent env) \<and> fault env AddAIMessage = None
                        then [message_to_stored sid (now env AddAIMessage) (AIMessage (fullAiResponse_agent env))]
                        else [])
   \<and> fst (stream_agent env sid hm w) =
         StreamResponse (Some sid)
           (case fault env StreamOpen of Some e \<Rightarrow> []
            | None \<Rightarrow> snd (read_events_agent (stream_chunks env) ([], [])))
           (case fault env StreamOpen of Some e \<Rightarrow> Errored e
            | None \<Rightarrow> (case stream_error env of None \<Rightarrow> Closed | Some e \<Rightarrow> Errored e))"
  by (simp add: stream_agent_def fullAiResponse_agent_def Let_def split: option.splits)

lemma POST_agent_outcome:
  "chat_messages (fst (snd (POST_agent env w req))) =
     chat_messages w @
       (if truthy_opt (last_user_content (messages req)) \<and> fault env AddUserMessage = None
        then rows_agent env (targetSessionId env req) (or_empty (last_user_content (messages req)))
        else [])
   \<and> ((\<exists>st body. fst (POST_agent env w req) = TextResponse st body)
       \<or> (\<exists>st e d. fst (POST_agent env w req) = ErrorResponse st e d)
       \<or> fst (POST_agent env w req) =
           StreamResponse (Some (targetSessionId env req))
             (case fault env StreamOpen of Some e \<Rightarrow> []
              | None \<Rightarrow> snd (read_events_agent (stream_chunks env) ([], [])))
             (case fault env StreamOpen of Some e \<Rightarrow> Errored e
              | None \<Rightarrow> (case stream_error env of None \<Rightarrow> Closed | Some e \<Rightarrow> Errored e)))"
  by (simp add: POST_agent_def api_error_agent_def rows_agent_def stream_agent_outcome Let_def
        split: option.splits)

section \<open>Assistant turns\<close>

lemma newly_stored_append: "chat_messages w' = chat_messages w @ new \<Longrightarrow> newly_stored w w' = new"
  by (simp add: newly_stored_def)

lemma human_row_not_ai: "p_type (message (message_to_stored sid t (HumanMessage c))) \<noteq> Some (js ''ai'')"
  by (simp add: message_to_stored_def HumanMessage_def kind_type_def js_def)

lemma ai_row_content: "p_content (message (message_to_stored sid t (AIMessage c))) = Some c"
  by (simp add: message_to_stored_def AIMessage_def)

lemma ai_in_rows_chat:
  assumes "r \<in> set (rows_chat env sid input)" "p_type (message r) = Some (js ''ai'')"
  shows "stream_error env = None \<and> assistantText_chat env \<noteq> []
         \<and> p_content (message r) = Some (assistantText_chat env)"
  using assms human_row_not_ai
  by (auto simp add: rows_chat_def truthy_def ai_row_content split: if_splits)

lemma ai_in_rows_rag:
  assumes "r \<in> set (rows_rag env sid input)" "p_type (message r) = Some (js ''ai'')"
  shows "stream_error env = None \<and> assistantText_rag env \<noteq> []
         \<and> p_content (message r) = Some (assistantText_rag env)"
  using assms human_row_not_ai
  by (auto simp add: rows_rag_def truthy_def ai_row_content split: if_splits)

lemma ai_in_rows_agent:
  assumes "r \<in> set (rows_agent env sid input)" "p_type (message r) = Some (js ''ai'')"
  shows "fault env GetMessages = None \<and> fault env StreamOpen = None \<and> stream_error env = None
         \<and> fullAiResponse_agent env \<noteq> []
         \<and> p_content (message r) = Some (fullAiResponse_agent env)"
  using assms human_row_not_ai
  by (auto simp add: rows_agent_def truthy_def ai_row_content split: if_splits)

lemma assistant_rows_chat:
  "chat_messages (fst (snd (POST_chat env w req)))
     = chat_messages w @ newly_stored w (fst (snd (POST_chat env w req)))
   \<and> (\<forall>r \<in> set (newly_stored w (fst (snd (POST_chat env w req)))).
         p_type (message r) = Some (js ''ai'') \<longrightarrow>
           stream_completed env (fst (POST_chat env w req)) \<and> assistantText_chat env \<noteq> []
           \<and> p_content (message r) = Some (assistantText_chat env))"
proof -
  from POST_chat_outcome [of env w req]
  consider (unchanged) "chat_messages (fst (snd (POST_chat env w req))) = chat_messages w"
    | (streamed) sid input where "fault env StreamOpen = None"
        "fst (POST_chat env w req) =
           StreamResponse (Some sid) (snd (read_chunks_chat (stream_chunks env) ([], [])))
             (case stream_error env of None \<Rightarrow> Closed | Some e \<Rightarrow> Errored e)"
        "chat_messages (fst (snd (POST_chat env w req))) = chat_messages w @ rows_chat env sid input"
    by blast
  then show ?thesis
  proof cases
    case unchanged
    then show ?thesis by (simp add: newly_stored_def)
  next
    case streamed
    from streamed(3) have n: "newly_stored w (fst (snd (POST_chat env w req))) = rows_chat env sid input"
      by (rule newly_stored_append)
    show ?thesis
      using streamed n ai_in_rows_chat [of _ env sid input]
      by (auto simp add: stream_completed_def)
  qed
qed

lemma assistant_rows_rag:
  "chat_messages (fst (snd (POST_rag env w req)))
     = chat_messages w @ newly_stored w (fst (snd (POST_rag env w req)))
   \<and> (\<forall>r \<in> set (newly_stored w (fst (snd (POST_rag env w req)))).
         p_type (message r) = Some (js ''ai'') \<longrightarrow>
           stream_completed env (fst (POST_rag env w req)) \<and> assistantText_rag env \<noteq> []
           \<and> p_content (message r) = Some (assistantText_rag env))"
proof -
  from POST_rag_no_stream [of env w req]
  consider (unchanged) "chat_messages (fst (snd (POST_rag env w req))) = chat_messages w"
    | (streamed) h enq ending where "fst (POST_rag env w req) = StreamResponse h enq ending"
    by blast
  then show ?thesis
  proof cases
    case unchanged
    then show ?thesis by (simp add: newly_stored_def)
  next
    case streamed
    from POST_rag_stream [OF streamed] obtain sid input where
      s: "fault env StreamOpen = None"
         "ending = (case stream_error env of None \<Rightarrow> Closed | Some e \<Rightarrow> Errored e)"
         "chat_messages (fst (snd (POST_rag env w req))) = chat_messages w @ rows_rag env sid input"
      by blast
    from s(3) have n: "newly_stored w (fst (snd (POST_rag env w req))) = rows_rag env sid input"
      by (rule newly_stored_append)
    show ?thesis
      using streamed s n ai_in_rows_rag [of _ env sid input]
      by (auto simp add: stream_completed_def)
  qed
qed

lemma assistant_rows_agent:
  "chat_messages (fst (snd (POST_agent env w req)))
     = chat_messages w @ newly_stored w (fst (snd (POST_agent env w req)))
   \<and> (\<forall>r \<in> set (newly_stored w (fst (snd (POST_agent env w req)))).
         p_type (message r) = Some (js ''ai'') \<longrightarrow>
           stream_completed env (fst (POST_agent env w req)) \<and> fullAiResponse_agent env \<noteq> []
           \<and> p_content (message r) = Some (fullAiResponse_agent env))"
proof (cases "truthy_opt (last_user_content (messages req)) \<and> fault env AddUserMessage = None")
  case False
  with POST_agent_outcome [of env w req]
  have "chat_messages (fst (snd (POST_agent env w req))) = chat_messages w" by auto
  then show ?thesis by (simp add: newly_stored_def)
next
  case True
  with POST_agent_outcome [of env w req]
  have m: "chat_messages (fst (snd (POST_agent env w req))) = chat_messages w @
             rows_agent env (targetSessionId env req) (or_empty (last_user_content (messages req)))"
    by simp
  then have n: "newly_stored w (fst (snd (POST_agent env w req))) =
             rows_agent env (targetSessionId env req) (or_empty (last_user_content (messages req)))"
    by (rule newly_stored_append)
  have r: "fault env GetMessages = None \<Longrightarrow> fault env StreamOpen = None \<Longrightarrow> stream_error env = None \<Longrightarrow>
           stream_completed env (fst (POST_agent env w req))"
    using True
    by (simp add: POST_agent_def stream_agent_outcome stream_completed_def Let_def)
  show ?thesis
    using m n r ai_in_rows_agent [of _ env "targetSessionId env req" "or_empty (last_user_content (messages req))"]
    by auto
qed

text \<open>
  C6. In each of the three POST handlers the rows of \<open>chat_messages\<close> after the
  request are the rows before it followed by the rows it added, and every added row of
  type \<open>ai\<close> was added after the model stream was opened, ran to its end without an
  error and the response stream was closed, and its content is the accumulated text,
  which is not empty.
\<close>

theorem assistant_turn_only_after_complete_nonempty_stream:
  "(chat_messages (fst (snd (POST_chat env w req)))
     = chat_messages w @ newly_stored w (fst (snd (POST_chat env w req)))
   \<and> (\<forall>r \<in> set (newly_stored w (fst (snd (POST_chat env w req)))).
         p_type (message r) = Some (js ''ai'') \<longrightarrow>
           stream_completed env (fst (POST_chat env w req)) \<and> assistantText_chat env \<noteq> []
           \<and> p_content (message r) = Some (assistantText_chat env)))
  \<and> (chat_messages (fst (snd (POST_rag env w req)))
     = chat_messages w @ newly_stored w (fst (snd (POST_rag env w req)))
   \<and> (\<forall>r \<in> set (newly_stored w (fst (snd (POST_rag env w req)))).
         p_type (message r) = Some (js ''ai'') \<longrightarrow>
           stream_completed env (fst (POST_rag env w req)) \<and> assistantText_rag env \<noteq> []
           \<and> p_content (message r) = Some (assistantText_rag env)))
  \<and> (chat_messages (fst (snd (POST_agent env w req)))
     = chat_messages w @ newly_stored w (fst (snd (POST_agent env w req)))
   \<and> (\<forall>r \<in> set (newly_stored w (fst (snd (POST_agent env w req)))).
         p_type (message r) = Some (js ''ai'') \<longrightarrow>
           stream_completed env (fst (POST_agent env w req)) \<and> fullAiResponse_agent env \<noteq> []
           \<and> p_content (message r) = Some (fullAiResponse_agent env)))"
  using assistant_rows_chat [of env w req] assistant_rows_rag [of env w req] assistant_rows_agent [of env w req]
  by blast

lemmas eval_chat = POST_chat_def createNewSession_def answer_chat_def fullHistory_chat_def input_chat_def
  recentWindow_chat_def historyWithoutLastInput_def stream_chat_def persist_chat_def updateSessionSummary_def api_error_chat_def
  mapUIMessagesToLangChainMessages_def mapUIMessage_def last_human_def last_human_index_def
  find_text_part_def title_chat_def select_summary_def getMessages_def select_history_def
  insert_session_def update_summary_def addMessages_def addMessage_def message_to_stored_def kind_type_def
  HumanMessage_def AIMessage_def truthy_def truthy_opt_def or_empty_def Let_def

theorem assistant_turn_only_after_complete_nonempty_stream_witness:
  "newly_stored empty_store (fst (snd (POST_rag quiet empty_store greeting)))
     = [message_to_stored (js ''s1'') 7 (HumanMessage (js ''Hello'')),
        message_to_stored (js ''s1'') 7 (AIMessage (js ''Hi''))]
   \<and> stream_completed quiet (fst (POST_rag quiet empty_store greeting))
   \<and> assistantText_rag quiet = js ''Hi''"
proof -
  have n: "newly_stored empty_store (fst (snd (POST_rag quiet empty_store greeting)))
     = [message_to_stored (js ''s1'') 7 (HumanMessage (js ''Hello'')),
        message_to_stored (js ''s1'') 7 (AIMessage (js ''Hi''))]"
    by (simp add: newly_stored_def eval_rag quiet_def empty_store_def greeting_def js_def search_unavailable_def)
  have a: "p_type (message (message_to_stored (js ''s1'') 7 (AIMessage (js ''Hi'')))) = Some (js ''ai'')"
    by (simp add: message_to_stored_def AIMessage_def kind_type_def)
  have c: "p_content (message (message_to_stored (js ''s1'') 7 (AIMessage (js ''Hi'')))) = Some (js ''Hi'')"
    by (simp add: message_to_stored_def AIMessage_def)
  from assistant_turn_only_after_complete_nonempty_stream [of quiet empty_store greeting] n a c
  show ?thesis by simp
qed

section \<open>The user turn when the model fails\<close>









section \<open>Retrieval failures\<close>

lemma retrieve_failed:
  assumes "search_outcome env = Inl msg"
  shows "fst (retrieve env input) = search_unavailable_now"
    and "\<exists>e. snd (retrieve env input) = [Log SearchErrorWarn e]"
  using assms by (simp_all add: retrieve_def searchDocuments_def)

lemma retrieve_placeholder_document:
  "retrieve (env\<lparr>search_outcome := Inr [search_unavailable_now]\<rparr>) input = (search_unavailable_now, [])"
  by (simp add: retrieve_def searchDocuments_def)

lemma objCounter_search [simp]: "objCounter (env\<lparr>search_outcome := x\<rparr>) = objCounter env"
  by (rule ext) (simp add: objCounter_def tiktokenCounter_def strTokenCounter_def)

lemma trim_search [simp]: "trim (env\<lparr>search_outcome := x\<rparr>) = trim env"
  by (intro ext) (simp add: trim_def)

lemma persist_rag_search [simp]:
  "persist_rag (env\<lparr>search_outcome := x\<rparr>) sid ps os input t w = persist_rag env sid ps os input t w"
  by (simp add: persist_rag_def Let_def split: option.splits)

lemma search_irrelevant [simp]:
  "resolve_session_rag (env\<lparr>search_outcome := x\<rparr>) w req = resolve_session_rag env w req"
  "budgeting_rag (env\<lparr>search_outcome := x\<rparr>) req fh input = budgeting_rag env req fh input"
  "save_user (env\<lparr>search_outcome := x\<rparr>) sid input w = save_user env sid input w"
  "stream_rag (env\<lparr>search_outcome := x\<rparr>) sid ps os input c w = stream_rag env sid ps os input c w"
  by (simp_all add: resolve_session_rag_def budgeting_rag_def save_user_def stream_rag_def
        insert_session_def Let_def split: option.splits)

lemma answer_rag_with_placeholder:
  assumes "search_outcome env = Inl msg"
  shows "fst (answer_rag env w req sid ps fh input)
           = fst (answer_rag (env\<lparr>search_outcome := Inr [search_unavailable_now]\<rparr>) w req sid ps fh input)"
    and "fst (snd (answer_rag env w req sid ps fh input))
           = fst (snd (answer_rag (env\<lparr>search_outcome := Inr [search_unavailable_now]\<rparr>) w req sid ps fh input))"
  by (simp_all add: answer_rag_def api_error_rag_def Let_def split: option.splits)

lemma POST_rag_with_placeholder:
  assumes "search_outcome env = Inl msg"
  shows "fst (POST_rag env w req)
           = fst (POST_rag (env\<lparr>search_outcome := Inr [search_unavailable_now]\<rparr>) w req)"
    and "fst (snd (POST_rag env w req))
           = fst (snd (POST_rag (env\<lparr>search_outcome := Inr [search_unavailable_now]\<rparr>) w req))"
  using answer_rag_with_placeholder [OF assms]
  by (simp_all add: POST_rag_def api_error_rag_def Let_def split: option.splits sum.splits prod.splits)

lemma rag_contexts_append [simp]: "rag_contexts (a @ b) = rag_contexts a @ rag_contexts b"
  by (simp add: rag_contexts_def)

lemma rag_contexts_simps [simp]:
  "rag_contexts [] = []"
  "rag_contexts (Log s e # evs) = rag_contexts evs"
  "rag_contexts (Call (RagChain i h su c) # evs) = c # rag_contexts evs"
  "rag_contexts (Call (SummarizeOverflow t) # evs) = rag_contexts evs"
  "rag_contexts (Call (SummarizeDelta a b) # evs) = rag_contexts evs"
  by (simp_all add: rag_contexts_def)

lemma rag_contexts_stages [simp]:
  "rag_contexts (snd (snd (budgeting_rag env req fh input))) = []"
  "rag_contexts (snd (retrieve env input)) = []"
  "rag_contexts (snd (snd (save_user env sid input w))) = []"
  "rag_contexts (snd (snd (stream_rag env sid ps os input c w))) = []"
  by (simp_all add: budgeting_rag_def retrieve_def save_user_def stream_rag_def persist_rag_def Let_def
        split: option.splits sum.splits)

lemma rag_contexts_answer:
  "rag_contexts (snd (snd (answer_rag env w req sid ps fh input))) = [fst (retrieve env input)]"
  by (simp add: answer_rag_def api_error_rag_def Let_def split: option.splits)

lemma rag_contexts_POST:
  "rag_contexts (snd (snd (POST_rag env w req))) = []
   \<or> (\<exists>input. rag_contexts (snd (snd (POST_rag env w req))) = [fst (retrieve env input)])"
  using rag_contexts_answer
  by (auto simp add: POST_rag_def api_error_rag_def Let_def split: option.splits sum.splits prod.splits)

lemma POST_rag_streams:
  assumes "truthy_opt (sessionId req)" "truthy_opt (last_user_input (messages req))"
          "fault env ConnectSummary = None" "fault env SelectSummary = None" "fault env GetMessages = None"
          "fault env StreamOpen = None"
  shows "fst (POST_rag env w req) =
           StreamResponse (sessionId req) (snd (snd (read_chunks_rag (stream_chunks env) ([], False, []))))
             (case stream_error env of None \<Rightarrow> Closed | Some e \<Rightarrow> Errored e)"
  using assms
  by (auto simp add: POST_rag_def resolve_session_rag_def answer_rag_def response_stream_rag Let_def
        truthy_opt_def or_empty_def split: option.splits)

text \<open>
  C4. When the vector search of a turn of the RAG route fails, with whatever error, the
  document context of the prompt is the placeholder text, which is not empty; the
  response and the store are those of the same turn with a search that succeeded and
  returned the placeholder as its only document, so the failure does not fail the turn;
  every call to the RAG chain among the events carries the placeholder as its context;
  and a request on an existing session with an input whose store reads succeed and whose
  model stream opens is answered with the stream of the model's chunks.
\<close>

theorem retrieval_failure_degrades_to_placeholder:
  assumes "search_outcome env = Inl msg"
  shows "fst (retrieve env input) = search_unavailable_now \<and> search_unavailable_now \<noteq> []
       \<and> fst (POST_rag env w req)
           = fst (POST_rag (env\<lparr>search_outcome := Inr [search_unavailable_now]\<rparr>) w req)
       \<and> fst (snd (POST_rag env w req))
           = fst (snd (POST_rag (env\<lparr>search_outcome := Inr [search_unavailable_now]\<rparr>) w req))
       \<and> (rag_contexts (snd (snd (POST_rag env w req))) = []
           \<or> rag_contexts (snd (snd (POST_rag env w req))) = [search_unavailable_now])
       \<and> (truthy_opt (sessionId req) \<and> truthy_opt (last_user_input (messages req))
           \<and> fault env ConnectSummary = None \<and> fault env SelectSummary = None
           \<and> fault env GetMessages = None \<and> fault env StreamOpen = None
          \<longrightarrow> fst (POST_rag env w req) =
                StreamResponse (sessionId req) (snd (snd (read_chunks_rag (stream_chunks env) ([], False, []))))
                  (case stream_error env of None \<Rightarrow> Closed | Some e \<Rightarrow> Errored e))"
proof (intro conjI impI)
  show "fst (retrieve env input) = search_unavailable_now"
    using assms by (rule retrieve_failed(1))
  show "search_unavailable_now \<noteq> []"
    by (simp add: search_unavailable_now_def)
  show "fst (POST_rag env w req)
           = fst (POST_rag (env\<lparr>search_outcome := Inr [search_unavailable_now]\<rparr>) w req)"
    using assms by (rule POST_rag_with_placeholder(1))
  show "fst (snd (POST_rag env w req))
           = fst (snd (POST_rag (env\<lparr>search_outcome := Inr [search_unavailable_now]\<rparr>) w req))"
    using assms by (rule POST_rag_with_placeholder(2))
  show "rag_contexts (snd (snd (POST_rag env w req))) = []
           \<or> rag_contexts (snd (snd (POST_rag env w req))) = [search_unavailable_now]"
    using rag_contexts_POST [of env w req] retrieve_failed(1) [OF assms] by auto
next
  assume "truthy_opt (sessionId req) \<and> truthy_opt (last_user_input (messages req))
           \<and> fault env ConnectSummary = None \<and> fault env SelectSummary = None
           \<and> fault env GetMessages = None \<and> fault env StreamOpen = None"
  then show "fst (POST_rag env w req) =
                StreamResponse (sessionId req) (snd (snd (read_chunks_rag (stream_chunks env) ([], False, []))))
                  (case stream_error env of None \<Rightarrow> Closed | Some e \<Rightarrow> Errored e)"
    using POST_rag_streams [of req env w] by blast
qed

theorem retrieval_failure_degrades_to_placeholder_witness:
  "fst (POST_rag unreachable one_session followup) = StreamResponse (Some (js ''s1'')) [js ''Hi''] Closed
   \<and> rag_contexts (snd (snd (POST_rag unreachable one_session followup))) = [search_unavailable_now]"
proof -
  have s: "search_outcome unreachable = Inl (js ''network down'')"
    by (simp add: unreachable_def)
  have c: "rag_contexts (snd (snd (POST_rag unreachable one_session followup))) \<noteq> []"
    by (simp add: eval_rag unreachable_def quiet_def one_session_def followup_def js_def search_unavailable_def)
  have h: "truthy_opt (sessionId followup)" "truthy_opt (last_user_input (messages followup))"
          "sessionId followup = Some (js ''s1'')"
    by (simp_all add: followup_def last_user_input_def find_text_part_def truthy_opt_def truthy_def js_def)
  have f: "fault unreachable ConnectSummary = None" "fault unreachable SelectSummary = None"
          "fault unreachable GetMessages = None" "fault unreachable StreamOpen = None"
          "stream_error unreachable = None"
    by (simp_all add: unreachable_def quiet_def)
  have e: "snd (snd (read_chunks_rag (stream_chunks unreachable) ([], False, []))) = [js ''Hi'']"
    by (simp add: unreachable_def quiet_def js_def search_unavailable_def)
  note t = retrieval_failure_degrades_to_placeholder [OF s, of "js ''Hello''" one_session followup]
  from t have ctx: "rag_contexts (snd (snd (POST_rag unreachable one_session followup))) = []
           \<or> rag_contexts (snd (snd (POST_rag unreachable one_session followup))) = [search_unavailable_now]"
    by blast
  from t h f have "fst (POST_rag unreachable one_session followup) =
                StreamResponse (sessionId followup)
                  (snd (snd (read_chunks_rag (stream_chunks unreachable) ([], False, []))))
                  (case stream_error unreachable of None \<Rightarrow> Closed | Some e \<Rightarrow> Errored e)"
    by blast
  with h(3) f(5) e have "fst (POST_rag unreachable one_session followup)
                = StreamResponse (Some (js ''s1'')) [js ''Hi''] Closed"
    by simp
  with ctx c show ?thesis by simp
qed

section \<open>Failures after the stream\<close>

lemma fst_answer_rag:
  "fst (answer_rag env w req sid ps fh input) =
     (case fault env StreamOpen of
        Some e \<Rightarrow> ErrorResponse 500 (js ''An error occurred'') (Some e)
      | None \<Rightarrow> StreamResponse (if truthy sid then Some sid else None)
                 (snd (snd (read_chunks_rag (stream_chunks env) ([], False, []))))
                 (case stream_error env of None \<Rightarrow> Closed | Some e \<Rightarrow> Errored e))"
  by (simp add: answer_rag_def api_error_rag_def response_stream_rag Let_def split: option.splits)

lemma fst_answer_chat:
  "fst (answer_chat env w evs req isNew sid) =
     (case fault env SelectSummary of
        Some e \<Rightarrow> ErrorResponse 500 (js ''An error occurred processing your request'') (Some e)
      | None \<Rightarrow>
     (case fault env GetMessages of
        Some e \<Rightarrow> ErrorResponse 500 (js ''An error occurred processing your request'') (Some e)
      | None \<Rightarrow>
        if \<not> truthy (input_chat (fullHistory_chat req isNew (getMessages w sid)))
        then TextResponse 400 (js ''No valid user input found.'')
        else (case fault env StreamOpen of
                Some e \<Rightarrow> ErrorResponse 500 (js ''An error occurred processing your request'') (Some e)
              | None \<Rightarrow> StreamResponse (Some sid) (snd (read_chunks_chat (stream_chunks env) ([], [])))
                          (case stream_error env of None \<Rightarrow> Closed | Some e \<Rightarrow> Errored e))))"
  by (simp add: answer_chat_def api_error_chat_def response_stream_chat Let_def split: option.splits)

lemma not_post_stream:
  "\<not> post_stream ConnectSession" "\<not> post_stream InsertSession" "\<not> post_stream ConnectSummary"
  "\<not> post_stream SelectSummary" "\<not> post_stream GetMessages" "\<not> post_stream StreamOpen"
  "\<not> post_stream AddUserMessage" "\<not> post_stream OverflowSummarizer"
  by (simp_all add: post_stream_def)

lemma response_rag_ignores_post_stream:
  assumes "\<And>p. \<not> post_stream p \<Longrightarrow> f p = fault env p"
  shows "fst (POST_rag (env\<lparr>fault := f\<rparr>) w req) = fst (POST_rag env w req)"
proof -
  have r: "resolve_session_rag (env\<lparr>fault := f\<rparr>) w req = resolve_session_rag env w req"
    by (simp add: resolve_session_rag_def insert_session_def assms not_post_stream Let_def split: option.splits)
  show ?thesis
    by (simp add: POST_rag_def r fst_answer_rag api_error_rag_def assms not_post_stream Let_def
          split: option.splits sum.splits prod.splits)
qed

lemma response_chat_ignores_post_stream:
  assumes "\<And>p. \<not> post_stream p \<Longrightarrow> f p = fault env p"
  shows "fst (POST_chat (env\<lparr>fault := f\<rparr>) w req) = fst (POST_chat env w req)"
proof -
  have c: "createNewSession (env\<lparr>fault := f\<rparr>) w u ms = createNewSession env w u ms" for u ms
    by (simp add: createNewSession_def insert_session_def assms not_post_stream split: option.splits sum.splits)
  show ?thesis
    by (simp add: POST_chat_def c fst_answer_chat api_error_chat_def assms not_post_stream Let_def
          split: option.splits sum.splits prod.splits)
qed

lemma select_summary_cong: "chat_sessions a = chat_sessions b \<Longrightarrow> select_summary a sid = select_summary b sid"
  by (simp add: select_summary_def)

lemma find_snoc: "List.find P (xs @ [x]) = (case List.find P xs of Some y \<Rightarrow> Some y | None \<Rightarrow> if P x then Some x else None)"
  by (induction xs) simp_all

lemma select_summary_insert_session:
  "select_summary (insert_session env t u w) sid = select_summary w sid"
  by (simp add: select_summary_def insert_session_def find_snoc or_empty_def split: option.splits)

lemma sessions_kept_rag:
  assumes "fault env Summarizer \<noteq> None"
  shows "chat_sessions (fst (snd (answer_rag env w req sid ps fh input))) = chat_sessions w"
  using assms
  by (auto simp add: answer_rag_def api_error_rag_def save_user_def stream_rag_def persist_rag_def Let_def
        split: option.splits)

lemma sessions_kept_chat:
  assumes "fault env Summarizer \<noteq> None"
  shows "chat_sessions (fst (snd (answer_chat env w evs req isNew sid))) = chat_sessions w"
  using assms
  by (auto simp add: answer_chat_def api_error_chat_def stream_chat_def persist_chat_def
        updateSessionSummary_def Let_def split: option.splits)

lemma summary_kept_rag:
  assumes "fault env Summarizer \<noteq> None"
  shows "select_summary (fst (snd (POST_rag env w req))) sid = select_summary w sid"
proof -
  have r: "select_summary (snd (resolve_session_rag env w req)) sid = select_summary w sid"
    by (simp add: resolve_session_rag_def select_summary_insert_session Let_def split: option.splits)
  have "chat_sessions (fst (snd (POST_rag env w req))) = chat_sessions (snd (resolve_session_rag env w req))"
    by (simp add: POST_rag_def api_error_rag_def sessions_kept_rag [OF assms] Let_def
          split: option.splits sum.splits prod.splits)
  from select_summary_cong [OF this] r show ?thesis by simp
qed

lemma summary_kept_chat:
  assumes "fault env Summarizer \<noteq> None"
  shows "select_summary (fst (snd (POST_chat env w req))) sid = select_summary w sid"
proof -
  have c: "select_summary (fst (snd (createNewSession env w u ms))) sid = select_summary w sid" for u ms
    by (simp add: createNewSession_def select_summary_insert_session split: option.splits sum.splits)
  show ?thesis
  proof (cases "truthy_opt (sessionId req)")
    case True
    then have "chat_sessions (fst (snd (POST_chat env w req))) = chat_sessions w"
      by (simp add: POST_chat_def api_error_chat_def sessions_kept_chat [OF assms])
    from select_summary_cong [OF this] show ?thesis .
  next
    case False
    show ?thesis
    proof (cases "truthy_opt (userId req)")
      case no: False
      with False show ?thesis by (simp add: POST_chat_def api_error_chat_def)
    next
      case yes: True
      obtain r w1 evs where cr: "createNewSession env w (or_empty (userId req)) (messages req) = (r, w1, evs)"
        by (cases "createNewSession env w (or_empty (userId req)) (messages req)") auto
      with c [of "or_empty (userId req)" "messages req"]
      have m: "select_summary w1 sid = select_summary w sid" by simp
      from False yes cr have "chat_sessions (fst (snd (POST_chat env w req))) = chat_sessions w1"
        by (simp add: POST_chat_def api_error_chat_def sessions_kept_chat [OF assms] split: sum.splits)
      from select_summary_cong [OF this] m show ?thesis by simp
    qed
  qed
qed

lemma persist_rag_logs:
  assumes "first_fault env [AddAIMessage, Summarizer, ConnectUpdate, UpdateSummary] = Some e"
  shows "Log UpdateSummaryFailed e \<in> set (snd (persist_rag env sid ps os input t w))"
  using assms by (simp add: persist_rag_def Let_def split: option.splits)

lemma persist_chat_logs:
  assumes "first_fault env [AddMessages, Summarizer, UpdateSummary] = Some e"
  shows "Log DatabaseSaveError e \<in> set (snd (persist_chat env sid ps db input t w))
         \<or> Log FailedToUpdateSummary e \<in> set (snd (persist_chat env sid ps db input t w))"
  using assms by (simp add: persist_chat_def updateSessionSummary_def Let_def split: option.splits)

lemma answer_rag_logs:
  assumes "fault env StreamOpen = None" "stream_error env = None" "truthy (assistantText_rag env)"
          "\<not> hasSearchError_rag env" "fault env AddUserMessage = None"
          "first_fault env [AddAIMessage, Summarizer, ConnectUpdate, UpdateSummary] = Some e"
  shows "Log UpdateSummaryFailed e \<in> set (snd (snd (answer_rag env w req sid ps fh input)))"
  using assms(1-5) persist_rag_logs [OF assms(6)]
  by (simp add: answer_rag_def save_user_def stream_rag_def assistantText_rag_def hasSearchError_rag_def Let_def)

lemma answer_chat_logs:
  assumes "fst (answer_chat env w evs req isNew sid) = StreamResponse h enq Closed"
          "truthy (assistantText_chat env)"
          "first_fault env [AddMessages, Summarizer, UpdateSummary] = Some e"
  shows "Log DatabaseSaveError e \<in> set (snd (snd (answer_chat env w evs req isNew sid)))
         \<or> Log FailedToUpdateSummary e \<in> set (snd (snd (answer_chat env w evs req isNew sid)))"
  using assms(1,2)
    persist_chat_logs [OF assms(3), of sid "select_summary w sid" "getMessages w sid"
      "input_chat (fullHistory_chat req isNew (getMessages w sid))"
      "fst (read_chunks_chat (stream_chunks env) ([], []))" w]
  by (auto simp add: answer_chat_def api_error_chat_def stream_chat_def assistantText_chat_def Let_def
        split: option.splits if_splits)

lemma POST_rag_logs:
  assumes "fst (POST_rag env w req) = StreamResponse h enq Closed" "truthy (assistantText_rag env)"
          "\<not> hasSearchError_rag env" "fault env AddUserMessage = None"
          "first_fault env [AddAIMessage, Summarizer, ConnectUpdate, UpdateSummary] = Some e"
  shows "Log UpdateSummaryFailed e \<in> set (snd (snd (POST_rag env w req)))"
proof -
  from POST_rag_stream [OF assms(1)]
  have o: "fault env StreamOpen = None" "stream_error env = None"
    by (auto split: option.splits)
  obtain r w1 where rs: "resolve_session_rag env w req = (r, w1)"
    by (cases "resolve_session_rag env w req") auto
  show ?thesis
  proof (cases r)
    case (Inl x)
    with rs assms(1) show ?thesis by (simp add: POST_rag_def api_error_rag_def)
  next
    case (Inr sid)
    with rs assms(1) have "snd (snd (POST_rag env w req)) =
        snd (snd (answer_rag env w1 req sid (select_summary w1 sid) (getMessages w1 sid)
                    (or_empty (last_user_input (messages req)))))"
      by (auto simp add: POST_rag_def api_error_rag_def Let_def split: option.splits if_splits)
    with answer_rag_logs [OF o assms(2-5)] show ?thesis by simp
  qed
qed

lemma POST_chat_logs:
  assumes "fst (POST_chat env w req) = StreamResponse h enq Closed" "truthy (assistantText_chat env)"
          "first_fault env [AddMessages, Summarizer, UpdateSummary] = Some e"
  shows "Log DatabaseSaveError e \<in> set (snd (snd (POST_chat env w req)))
         \<or> Log FailedToUpdateSummary e \<in> set (snd (snd (POST_chat env w req)))"
proof (cases "truthy_opt (sessionId req)")
  case True
  with assms(1) answer_chat_logs [OF _ assms(2,3), of w "[]" req False "or_empty (sessionId req)" h enq]
  show ?thesis
    by (auto simp add: POST_chat_def api_error_chat_def split: if_splits)
next
  case False
  show ?thesis
  proof (cases "truthy_opt (userId req)")
    case no: False
    with False assms(1) show ?thesis by (simp add: POST_chat_def api_error_chat_def)
  next
    case yes: True
    obtain r w1 evs where cr: "createNewSession env w (or_empty (userId req)) (messages req) = (r, w1, evs)"
      by (cases "createNewSession env w (or_empty (userId req)) (messages req)") auto
    show ?thesis
    proof (cases r)
      case (Inl x)
      with False yes cr assms(1) show ?thesis by (simp add: POST_chat_def api_error_chat_def)
    next
      case (Inr sid)
      with False yes cr assms(1) answer_chat_logs [OF _ assms(2,3), of w1 evs req True sid h enq]
      show ?thesis
        by (auto simp add: POST_chat_def api_error_chat_def split: if_splits)
    qed
  qed
qed

text \<open>
  C7. In the RAG route and in the chat route: the response of a turn does not depend on
  whether the calls after the stream (the write of the assistant turn or of both turns,
  the summarizer, the write of the summary) reject, so no such failure reaches the
  caller; when the summarizer rejects, the summary of every session reads as before the
  request; and when the stream was closed with an answer to store, the error of the
  first of these calls that rejects is written to the console.
\<close>

theorem post_stream_failures_swallowed:
  "((\<forall>p. \<not> post_stream p \<longrightarrow> f p = fault env p) \<longrightarrow>
       fst (POST_rag (env\<lparr>fault := f\<rparr>) w req) = fst (POST_rag env w req)
     \<and> fst (POST_chat (env\<lparr>fault := f\<rparr>) w req) = fst (POST_chat env w req))
   \<and> (fault env Summarizer \<noteq> None \<longrightarrow>
       select_summary (fst (snd (POST_rag env w req))) sid = select_summary w sid
     \<and> select_summary (fst (snd (POST_chat env w req))) sid = select_summary w sid)
   \<and> (fst (POST_rag env w req) = StreamResponse h enq Closed \<and> truthy (assistantText_rag env)
       \<and> \<not> hasSearchError_rag env \<and> fault env AddUserMessage = None
       \<and> first_fault env [AddAIMessage, Summarizer, ConnectUpdate, UpdateSummary] = Some e
      \<longrightarrow> Log UpdateSummaryFailed e \<in> set (snd (snd (POST_rag env w req))))
   \<and> (fst (POST_chat env w req) = StreamResponse h' enq' Closed \<and> truthy (assistantText_chat env)
       \<and> first_fault env [AddMessages, Summarizer, UpdateSummary] = Some e'
      \<longrightarrow> Log DatabaseSaveError e' \<in> set (snd (snd (POST_chat env w req)))
          \<or> Log FailedToUpdateSummary e' \<in> set (snd (snd (POST_chat env w req))))"
proof (intro conjI impI)
  assume a: "\<forall>p. \<not> post_stream p \<longrightarrow> f p = fault env p"
  then show "fst (POST_rag (env\<lparr>fault := f\<rparr>) w req) = fst (POST_rag env w req)"
    by (intro response_rag_ignores_post_stream) blast
  from a show "fst (POST_chat (env\<lparr>fault := f\<rparr>) w req) = fst (POST_chat env w req)"
    by (intro response_chat_ignores_post_stream) blast
next
  assume s: "fault env Summarizer \<noteq> None"
  then show "select_summary (fst (snd (POST_rag env w req))) sid = select_summary w sid"
    by (rule summary_kept_rag)
  from s show "select_summary (fst (snd (POST_chat env w req))) sid = select_summary w sid"
    by (rule summary_kept_chat)
next
  assume "fst (POST_rag env w req) = StreamResponse h enq Closed \<and> truthy (assistantText_rag env)
       \<and> \<not> hasSearchError_rag env \<and> fault env AddUserMessage = None
       \<and> first_fault env [AddAIMessage, Summarizer, ConnectUpdate, UpdateSummary] = Some e"
  then show "Log UpdateSummaryFailed e \<in> set (snd (snd (POST_rag env w req)))"
    using POST_rag_logs [of env w req h enq e] by blast
next
  assume "fst (POST_chat env w req) = StreamResponse h' enq' Closed \<and> truthy (assistantText_chat env)
       \<and> first_fault env [AddMessages, Summarizer, UpdateSummary] = Some e'"
  then show "Log DatabaseSaveError e' \<in> set (snd (snd (POST_chat env w req)))
          \<or> Log FailedToUpdateSummary e' \<in> set (snd (snd (POST_chat env w req)))"
    using POST_chat_logs [of env w req h' enq' e'] by blast
qed

theorem post_stream_failures_swallowed_witness:
  "fst (POST_rag no_summarizer one_session followup) = StreamResponse (Some (js ''s1'')) [js ''Hi''] Closed
   \<and> select_summary (fst (snd (POST_rag no_summarizer one_session followup))) (js ''s1'') = js ''S0''
   \<and> Log UpdateSummaryFailed (js ''quota'') \<in> set (snd (snd (POST_rag no_summarizer one_session followup)))
   \<and> fst (POST_chat no_summarizer one_session followup) = StreamResponse (Some (js ''s1'')) [js ''Hi''] Closed
   \<and> Log FailedToUpdateSummary (js ''quota'') \<in> set (snd (snd (POST_chat no_summarizer one_session followup)))"
proof -
  let ?f = "\<lambda>p. if p = Summarizer then Some (js ''quota'') else None"
  have n: "no_summarizer = quiet\<lparr>fault := ?f\<rparr>"
    by (simp add: no_summarizer_def)
  have a: "\<forall>p. \<not> post_stream p \<longrightarrow> ?f p = fault quiet p"
    by (simp add: post_stream_def quiet_def)
  have q: "fst (POST_rag quiet one_session followup) = StreamResponse (Some (js ''s1'')) [js ''Hi''] Closed"
    by (simp add: eval_rag quiet_def one_session_def followup_def js_def search_unavailable_def)
  have c: "fst (POST_chat quiet one_session followup) = StreamResponse (Some (js ''s1'')) [js ''Hi''] Closed"
    by (simp add: eval_chat quiet_def one_session_def followup_def js_def)
  from post_stream_failures_swallowed [of ?f quiet one_session followup] a q c n
  have r: "fst (POST_rag no_summarizer one_session followup) = StreamResponse (Some (js ''s1'')) [js ''Hi''] Closed"
          "fst (POST_chat no_summarizer one_session followup) = StreamResponse (Some (js ''s1'')) [js ''Hi''] Closed"
    by simp_all
  have s: "fault no_summarizer Summarizer \<noteq> None" "fault no_summarizer AddUserMessage = None"
          "first_fault no_summarizer [AddAIMessage, Summarizer, ConnectUpdate, UpdateSummary] = Some (js ''quota'')"
          "first_fault no_summarizer [AddMessages, Summarizer, UpdateSummary] = Some (js ''quota'')"
    by (simp_all add: no_summarizer_def quiet_def)
  have t: "truthy (assistantText_rag no_summarizer)" "\<not> hasSearchError_rag no_summarizer"
          "truthy (assistantText_chat no_summarizer)"
    by (simp_all add: assistantText_rag_def hasSearchError_rag_def assistantText_chat_def no_summarizer_def
          quiet_def truthy_def js_def search_unavailable_def)
  have o: "select_summary one_session (js ''s1'') = js ''S0''"
    by (simp add: select_summary_def one_session_def or_empty_def)
  have d: "\<not> Log DatabaseSaveError (js ''quota'') \<in> set (snd (snd (POST_chat no_summarizer one_session followup)))"
    by (simp add: eval_chat no_summarizer_def quiet_def one_session_def followup_def js_def)
  from post_stream_failures_swallowed
         [of "fault no_summarizer" no_summarizer one_session followup "js ''s1''"
             "Some (js ''s1'')" "[js ''Hi'']" "js ''quota''" "Some (js ''s1'')" "[js ''Hi'']" "js ''quota''"]
       r s t o d
  show ?thesis by simp
qed

section \<open>The summary\<close>

lemma rag_summaries_append [simp]: "rag_summaries (a @ b) = rag_summaries a @ rag_summaries b"
  by (simp add: rag_summaries_def)

lemma rag_summaries_simps [simp]:
  "rag_summaries [] = []"
  "rag_summaries (Log s e # evs) = rag_summaries evs"
  "rag_summaries (Call (RagChain i h su c) # evs) = su # rag_summaries evs"
  "rag_summaries (Call (SummarizeOverflow t) # evs) = rag_summaries evs"
  "rag_summaries (Call (SummarizeDelta a b) # evs) = rag_summaries evs"
  by (simp_all add: rag_summaries_def)

lemma rag_summaries_stages [simp]:
  "rag_summaries (snd (snd (budgeting_rag env req fh input))) = []"
  "rag_summaries (snd (retrieve env input)) = []"
  "rag_summaries (snd (snd (save_user env sid input w))) = []"
  "rag_summaries (snd (snd (stream_rag env sid ps os input c w))) = []"
  by (simp_all add: budgeting_rag_def retrieve_def save_user_def stream_rag_def persist_rag_def Let_def
        split: option.splits sum.splits)

lemma no_overflow_call_stages [simp]:
  "filter overflow_call (snd (retrieve env input)) = []"
  "filter overflow_call (snd (snd (save_user env sid input w))) = []"
  "filter overflow_call (snd (snd (stream_rag env sid ps os input c w))) = []"
  by (simp_all add: retrieve_def save_user_def stream_rag_def persist_rag_def Let_def
        split: option.splits sum.splits)

lemma budgeting_skipped:
  assumes "\<not> truthy_opt (sessionId req) \<or> fh = []"
  shows "budgeting_rag env req fh input = ([], [], [])"
  using assms by (auto simp add: budgeting_rag_def)

lemma answer_rag_no_overflow:
  assumes "\<not> truthy_opt (sessionId req) \<or> fh = []"
  shows "filter overflow_call (snd (snd (answer_rag env w req sid ps fh input))) = []"
    and "rag_summaries (snd (snd (answer_rag env w req sid ps fh input))) = [ps]"
  by (simp_all add: answer_rag_def api_error_rag_def budgeting_skipped [OF assms] truthy_def
        Let_def split: option.splits)

lemma resolve_session_rag_id:
  "fst (resolve_session_rag env w req) = Inr sid \<Longrightarrow> sid = currentSessionId env req"
  by (auto simp add: resolve_session_rag_def currentSessionId_def Let_def split: option.splits if_splits)

lemma resolve_session_rag_summary:
  "select_summary (snd (resolve_session_rag env w req)) sid = select_summary w sid"
  by (simp add: resolve_session_rag_def select_summary_insert_session Let_def split: option.splits)

lemma resolve_session_rag_named:
  "truthy_opt (sessionId req) \<Longrightarrow> resolve_session_rag env w req = (Inr (or_empty (sessionId req)), w)"
  by (simp add: resolve_session_rag_def)

lemma POST_rag_events:
  "(\<exists>e. snd (snd (POST_rag env w req)) = [Log ApiError e])
   \<or> snd (snd (POST_rag env w req)) = []
   \<or> (\<exists>sid w1 input. resolve_session_rag env w req = (Inr sid, w1)
         \<and> POST_rag env w req = answer_rag env w1 req sid (select_summary w1 sid) (getMessages w1 sid) input)"
  by (auto simp add: POST_rag_def api_error_rag_def Let_def split: option.splits sum.splits prod.splits)

lemma POST_rag_stream_events:
  assumes "fst (POST_rag env w req) = StreamResponse h enq ending"
  shows "\<exists>sid w1 input. resolve_session_rag env w req = (Inr sid, w1)
         \<and> POST_rag env w req = answer_rag env w1 req sid (select_summary w1 sid) (getMessages w1 sid) input"
  using assms
  by (auto simp add: POST_rag_def api_error_rag_def Let_def split: option.splits sum.splits prod.splits if_splits)

lemma answer_at_no_overflow:
  assumes n: "\<not> truthy_opt (sessionId req) \<or> getMessages w (or_empty (sessionId req)) = []"
      and r: "resolve_session_rag env w req = (Inr sid, w1)"
  shows "filter overflow_call (snd (snd (answer_rag env w1 req sid (select_summary w1 sid) (getMessages w1 sid) input))) = []"
    and "rag_summaries (snd (snd (answer_rag env w1 req sid (select_summary w1 sid) (getMessages w1 sid) input)))
           = [select_summary w (currentSessionId env req)]"
proof -
  have g: "\<not> truthy_opt (sessionId req) \<or> getMessages w1 sid = []"
  proof (cases "truthy_opt (sessionId req)")
    case True
    with r have "sid = or_empty (sessionId req)" "w1 = w"
      by (simp_all add: resolve_session_rag_named)
    with n True show ?thesis by simp
  next
    case False
    then show ?thesis by simp
  qed
  from r have i: "sid = currentSessionId env req"
    using resolve_session_rag_id [of env w req sid] by simp
  from r have s: "select_summary w1 sid = select_summary w sid"
    using resolve_session_rag_summary [of env w req sid] by simp
  from answer_rag_no_overflow(1) [OF g]
  show "filter overflow_call (snd (snd (answer_rag env w1 req sid (select_summary w1 sid) (getMessages w1 sid) input))) = []" .
  from answer_rag_no_overflow(2) [OF g, of env w1 sid "select_summary w1 sid" input] s i
  show "rag_summaries (snd (snd (answer_rag env w1 req sid (select_summary w1 sid) (getMessages w1 sid) input)))
           = [select_summary w (currentSessionId env req)]"
    by simp
qed

lemma POST_rag_no_overflow:
  assumes n: "\<not> truthy_opt (sessionId req) \<or> getMessages w (or_empty (sessionId req)) = []"
  shows "filter overflow_call (snd (snd (POST_rag env w req))) = []"
    and "rag_summaries (snd (snd (POST_rag env w req))) = []
         \<or> rag_summaries (snd (snd (POST_rag env w req))) = [select_summary w (currentSessionId env req)]"
  using POST_rag_events [of env w req] answer_at_no_overflow [OF n]
  by auto

lemma POST_rag_stream_summary:
  assumes n: "\<not> truthy_opt (sessionId req) \<or> getMessages w (or_empty (sessionId req)) = []"
      and s: "fst (POST_rag env w req) = StreamResponse h enq ending"
  shows "rag_summaries (snd (snd (POST_rag env w req))) = [select_summary w (currentSessionId env req)]"
  using POST_rag_stream_events [OF s] answer_at_no_overflow(2) [OF n]
  by auto

lemma sessions_persist_rag_done:
  assumes "fault env AddAIMessage = None" "fault env Summarizer = None"
          "fault env ConnectUpdate = None" "fault env UpdateSummary = None"
  shows "chat_sessions (fst (persist_rag env sid ps os input t w))
           = chat_sessions (update_summary sid (summarizer_output env) w)"
  using assms by (simp add: persist_rag_def update_summary_def Let_def)

lemma sessions_POST_rag_done:
  assumes "fst (POST_rag env w req) = StreamResponse h enq Closed" "truthy_opt (sessionId req)"
          "truthy (assistantText_rag env)" "\<not> hasSearchError_rag env"
          "fault env AddUserMessage = None" "fault env AddAIMessage = None" "fault env Summarizer = None"
          "fault env ConnectUpdate = None" "fault env UpdateSummary = None"
  shows "chat_sessions (fst (snd (POST_rag env w req)))
           = chat_sessions (update_summary (or_empty (sessionId req)) (summarizer_output env) w)"
  using assms
  by (auto simp add: POST_rag_def resolve_session_rag_def api_error_rag_def answer_rag_def save_user_def
        stream_rag_def assistantText_rag_def hasSearchError_rag_def sessions_persist_rag_done
        update_summary_def Let_def split: option.splits if_splits)

lemma sessions_POST_chat_done:
  assumes "fst (POST_chat env w req) = StreamResponse h enq Closed" "truthy_opt (sessionId req)"
          "truthy (assistantText_chat env)"
          "fault env AddMessages = None" "fault env Summarizer = None" "fault env UpdateSummary = None"
  shows "chat_sessions (fst (snd (POST_chat env w req)))
           = chat_sessions (update_summary (or_empty (sessionId req)) (summarizer_output env) w)"
  using assms
  by (auto simp add: POST_chat_def api_error_chat_def answer_chat_def stream_chat_def persist_chat_def
        updateSessionSummary_def assistantText_chat_def update_summary_def Let_def
        split: option.splits if_splits)

text \<open>
  C3 (as the code has it). When a turn of the RAG route has no overflow (the request
  names no session, or the stored history of its session is empty), no call to the
  summarizer of the overflow is among its events, and the summary of every call to the
  RAG chain is the persisted summary of the session as it was before the request; when
  the turn is answered with a stream there is exactly that one call. The persisted
  summary itself is rewritten by a completed exchange, overflow or not. In the RAG
  route: when a turn on a session the request names ends with a closed stream, the
  answer is not empty and does not carry the search phrase, and the writes of the user
  turn, of the assistant turn and of the summary, the connection for it and the
  summarizer succeed, the sessions relation is the one before with the summary of this
  session set to the summarizer's output. In the chat route: the same when the stream is
  closed, the answer is not empty, and the write of the turns, the summarizer and the
  write of the summary succeed.
\<close>

theorem summary_without_overflow:
  "((\<not> truthy_opt (sessionId req) \<or> getMessages w (or_empty (sessionId req)) = []) \<longrightarrow>
       filter overflow_call (snd (snd (POST_rag env w req))) = []
     \<and> (rag_summaries (snd (snd (POST_rag env w req))) = []
         \<or> rag_summaries (snd (snd (POST_rag env w req))) = [select_summary w (currentSessionId env req)])
     \<and> (fst (POST_rag env w req) = StreamResponse h0 enq0 ending0 \<longrightarrow>
           rag_summaries (snd (snd (POST_rag env w req))) = [select_summary w (currentSessionId env req)]))
   \<and> (fst (POST_rag env w req) = StreamResponse h enq Closed \<and> truthy_opt (sessionId req)
       \<and> truthy (assistantText_rag env) \<and> \<not> hasSearchError_rag env
       \<and> fault env AddUserMessage = None \<and> fault env AddAIMessage = None \<and> fault env Summarizer = None
       \<and> fault env ConnectUpdate = None \<and> fault env UpdateSummary = None
     \<longrightarrow> chat_sessions (fst (snd (POST_rag env w req)))
           = chat_sessions (update_summary (or_empty (sessionId req)) (summarizer_output env) w))
   \<and> (fst (POST_chat env w req) = StreamResponse h' enq' Closed \<and> truthy_opt (sessionId req)
       \<and> truthy (assistantText_chat env)
       \<and> fault env AddMessages = None \<and> fault env Summarizer = None \<and> fault env UpdateSummary = None
     \<longrightarrow> chat_sessions (fst (snd (POST_chat env w req)))
           = chat_sessions (update_summary (or_empty (sessionId req)) (summarizer_output env) w))"
proof (intro conjI impI)
  assume n: "\<not> truthy_opt (sessionId req) \<or> getMessages w (or_empty (sessionId req)) = []"
  from POST_rag_no_overflow(1) [OF n]
  show "filter overflow_call (snd (snd (POST_rag env w req))) = []" .
  from POST_rag_no_overflow(2) [OF n]
  show "rag_summaries (snd (snd (POST_rag env w req))) = []
         \<or> rag_summaries (snd (snd (POST_rag env w req))) = [select_summary w (currentSessionId env req)]" .
  assume "fst (POST_rag env w req) = StreamResponse h0 enq0 ending0"
  from POST_rag_stream_summary [OF n this]
  show "rag_summaries (snd (snd (POST_rag env w req))) = [select_summary w (currentSessionId env req)]" .
next
  assume "fst (POST_rag env w req) = StreamResponse h enq Closed \<and> truthy_opt (sessionId req)
       \<and> truthy (assistantText_rag env) \<and> \<not> hasSearchError_rag env
       \<and> fault env AddUserMessage = None \<and> fault env AddAIMessage = None \<and> fault env Summarizer = None
       \<and> fault env ConnectUpdate = None \<and> fault env UpdateSummary = None"
  then show "chat_sessions (fst (snd (POST_rag env w req)))
           = chat_sessions (update_summary (or_empty (sessionId req)) (summarizer_output env) w)"
    using sessions_POST_rag_done [of env w req h enq] by blast
next
  assume "fst (POST_chat env w req) = StreamResponse h' enq' Closed \<and> truthy_opt (sessionId req)
       \<and> truthy (assistantText_chat env)
       \<and> fault env AddMessages = None \<and> fault env Summarizer = None \<and> fault env UpdateSummary = None"
  then show "chat_sessions (fst (snd (POST_chat env w req)))
           = chat_sessions (update_summary (or_empty (sessionId req)) (summarizer_output env) w)"
    using sessions_POST_chat_done [of env w req h' enq'] by blast
qed

theorem summary_without_overflow_witness:
  "filter overflow_call (snd (snd (POST_rag quiet one_session followup))) = []
   \<and> rag_summaries (snd (snd (POST_rag quiet one_session followup))) = [js ''S0'']
   \<and> chat_sessions (fst (snd (POST_rag quiet one_session followup)))
        = chat_sessions (update_summary (js ''s1'') (js ''sum'') one_session)
   \<and> chat_sessions (fst (snd (POST_chat quiet one_session followup)))
        = chat_sessions (update_summary (js ''s1'') (js ''sum'') one_session)"
proof -
  have n: "getMessages one_session (or_empty (sessionId followup)) = []"
    by (simp add: getMessages_def select_history_def one_session_def)
  have r: "fst (POST_rag quiet one_session followup) = StreamResponse (Some (js ''s1'')) [js ''Hi''] Closed"
    by (simp add: eval_rag quiet_def one_session_def followup_def js_def search_unavailable_def)
  have c: "fst (POST_chat quiet one_session followup) = StreamResponse (Some (js ''s1'')) [js ''Hi''] Closed"
    by (simp add: eval_chat eval_trim quiet_def one_session_def followup_def js_def)
  have s: "truthy_opt (sessionId followup)" "or_empty (sessionId followup) = js ''s1''"
          "currentSessionId quiet followup = js ''s1''"
    by (simp_all add: currentSessionId_def followup_def truthy_opt_def truthy_def or_empty_def js_def)
  have o: "select_summary one_session (js ''s1'') = js ''S0''"
    by (simp add: select_summary_def one_session_def or_empty_def)
  have t: "truthy (assistantText_rag quiet)" "\<not> hasSearchError_rag quiet" "truthy (assistantText_chat quiet)"
    by (simp_all add: assistantText_rag_def hasSearchError_rag_def assistantText_chat_def quiet_def truthy_def
          js_def search_unavailable_def)
  have f: "fault quiet AddUserMessage = None" "fault quiet AddAIMessage = None" "fault quiet Summarizer = None"
          "fault quiet ConnectUpdate = None" "fault quiet UpdateSummary = None" "fault quiet AddMessages = None"
          "summarizer_output quiet = js ''sum''"
    by (simp_all add: quiet_def)
  note inst = summary_without_overflow
         [of followup one_session quiet "Some (js ''s1'')" "[js ''Hi'']" Closed
             "Some (js ''s1'')" "[js ''Hi'']" "Some (js ''s1'')" "[js ''Hi'']"]
  from inst n r s o have a: "filter overflow_call (snd (snd (POST_rag quiet one_session followup))) = []"
      "rag_summaries (snd (snd (POST_rag quiet one_session followup))) = [js ''S0'']"
    by simp_all
  from inst r s t f have b: "chat_sessions (fst (snd (POST_rag quiet one_session followup)))
        = chat_sessions (update_summary (js ''s1'') (js ''sum'') one_session)"
    by simp
  from inst c s t f have d: "chat_sessions (fst (snd (POST_chat quiet one_session followup)))
        = chat_sessions (update_summary (js ''s1'') (js ''sum'') one_session)"
    by simp
  from a b d show ?thesis by simp
qed

text \<open>
  The claim says that a completed exchange without overflow leaves the persisted summary
  as it was. The first turn on a session with no stored turn has no overflow and makes
  no call to the summarizer of the overflow; the exchange completes, and the summary of
  the session changes from \<open>S0\<close> to the summarizer's output.
\<close>

theorem summary_rewritten_without_overflow:
  "getMessages one_session (js ''s1'') = []
   \<and> select_summary one_session (js ''s1'') = js ''S0''
   \<and> fst (POST_rag quiet one_session followup) = StreamResponse (Some (js ''s1'')) [js ''Hi''] Closed
   \<and> filter overflow_call (snd (snd (POST_rag quiet one_session followup))) = []
   \<and> select_summary (fst (snd (POST_rag quiet one_session followup))) (js ''s1'') = js ''sum''"
  by (simp add: eval_rag eval_trim quiet_def one_session_def followup_def row_of_def js_def search_unavailable_def)


end
